theory Spec2Isabelle
  imports Main "HOL-Library.AList" "HOL-Library.Signed_Division" "HOL-Library.Sublist"
begin

section \<open>Machine integers\<close>

text \<open>
  Go's \<^verbatim>\<open>int64\<close> is modelled as an \<^typ>\<open>int\<close> that every arithmetic operation wraps
  back into the range \<open>-2^63 .. 2^63 - 1\<close>. Go's \<^verbatim>\<open>int\<close> is 64 bits wide on the platforms
  the server is built for, so the conversion \<^verbatim>\<open>int64(x)\<close> of an \<^verbatim>\<open>int\<close> keeps the value.
  Go's \<^verbatim>\<open>/\<close> and \<^verbatim>\<open>%\<close> truncate towards zero: they are \<open>sdiv\<close> and \<open>smod\<close>.
\<close>

definition int64 :: "int \<Rightarrow> int" where
  "int64 k = signed_take_bit 63 k"

section \<open>pkg/types: endpoint statistics\<close>

text \<open>
  A Go map is modelled as an association list read with \<^const>\<open>map_of\<close> and written
  with \<^const>\<open>AList.update\<close> and \<^const>\<open>AList.delete\<close>; a \<^verbatim>\<open>nil\<close> map is \<open>None\<close>.
  \<^verbatim>\<open>time.Time\<close> is a number of nanoseconds, the zero time is \<open>None\<close>.
\<close>

record EndpointStats =
  Path :: string
  RequestCount :: int
  ErrorCount :: int
  TotalTimeMs :: int
  MinTimeMs :: int
  MaxTimeMs :: int
  StatusCodes :: "(int \<times> int) list option"
  FirstRequest :: "int option"
  LastRequest :: "int option"
  ConditionalCount :: int

text \<open>\<^verbatim>\<open>time.Duration.Milliseconds\<close>: the nanosecond count divided by \<open>10^6\<close>, truncated.\<close>

definition Milliseconds :: "int \<Rightarrow> int" where
  "Milliseconds d = d sdiv 1000000"

text \<open>Reading a key of a Go map of counters: the zero value when the key is absent.\<close>

definition map_get0 :: "(int \<times> int) list \<Rightarrow> int \<Rightarrow> int" where
  "map_get0 m k = (case map_of m k of None \<Rightarrow> 0 | Some v \<Rightarrow> v)"

text \<open>
  \<^verbatim>\<open>EndpointStats.RecordRequest(duration, statusCode)\<close>; the clock reading
  \<^verbatim>\<open>time.Now()\<close> is the parameter \<open>now\<close>, the duration is in nanoseconds.
\<close>

definition RecordRequest :: "int \<Rightarrow> int \<Rightarrow> int \<Rightarrow> EndpointStats \<Rightarrow> EndpointStats" where
  "RecordRequest now duration statusCode es =
    (let durationMs = Milliseconds duration;
         es1 = es\<lparr>RequestCount := int64 (RequestCount es + 1)\<rparr>;
         es2 = es1\<lparr>TotalTimeMs := int64 (TotalTimeMs es1 + durationMs)\<rparr>;
         es3 = (if statusCode \<ge> 400 then es2\<lparr>ErrorCount := int64 (ErrorCount es2 + 1)\<rparr> else es2);
         es4 = (if MinTimeMs es3 = 0 \<or> durationMs < MinTimeMs es3
                then es3\<lparr>MinTimeMs := durationMs\<rparr> else es3);
         es5 = (if durationMs > MaxTimeMs es4 then es4\<lparr>MaxTimeMs := durationMs\<rparr> else es4);
         codes = (case StatusCodes es5 of None \<Rightarrow> [] | Some m \<Rightarrow> m);
         es6 = es5\<lparr>StatusCodes :=
                 Some (AList.update statusCode (int64 (map_get0 codes statusCode + 1)) codes)\<rparr>;
         es7 = (if FirstRequest es6 = None then es6\<lparr>FirstRequest := Some now\<rparr> else es6)
     in es7\<lparr>LastRequest := Some now\<rparr>)"

definition IncrementConditionalCount :: "EndpointStats \<Rightarrow> EndpointStats" where
  "IncrementConditionalCount es = es\<lparr>ConditionalCount := int64 (ConditionalCount es + 1)\<rparr>"

definition GetConditionalCount :: "EndpointStats \<Rightarrow> int" where
  "GetConditionalCount es = ConditionalCount es"

text \<open>The statistics \<^verbatim>\<open>GetEndpointStats\<close> creates for a path it has not seen.\<close>

definition new_EndpointStats :: "string \<Rightarrow> EndpointStats" where
  "new_EndpointStats p =
    \<lparr>Path = p, RequestCount = 0, ErrorCount = 0, TotalTimeMs = 0, MinTimeMs = 0,
     MaxTimeMs = 0, StatusCodes = Some [], FirstRequest = None, LastRequest = None,
     ConditionalCount = 0\<rparr>"

text \<open>
  A recorded request is a clock reading, a duration in nanoseconds and a status code;
  \<open>record_all\<close> is a sequence of \<^verbatim>\<open>RecordRequest\<close> calls on one endpoint.
\<close>

type_synonym recorded = "int \<times> int \<times> int"

fun record_all :: "recorded list \<Rightarrow> EndpointStats \<Rightarrow> EndpointStats" where
  "record_all [] es = es"
| "record_all ((now, d, sc) # rs) es = record_all rs (RecordRequest now d sc es)"

definition histogram_total :: "EndpointStats \<Rightarrow> int" where
  "histogram_total es = (case StatusCodes es of None \<Rightarrow> 0 | Some m \<Rightarrow> sum_list (map snd m))"

definition error_statuses :: "recorded list \<Rightarrow> nat" where
  "error_statuses rs = length (filter (\<lambda>(now, d, sc). sc \<ge> 400) rs)"

definition elapsed_ms :: "recorded list \<Rightarrow> int list" where
  "elapsed_ms rs = map (\<lambda>(now, d, sc). Milliseconds d) rs"

text \<open>
  The invariant carried through a sequence of records: \<open>n\<close> requests and \<open>e\<close> errors
  have been recorded, no histogram entry is negative.
\<close>

definition stats_inv :: "nat \<Rightarrow> nat \<Rightarrow> EndpointStats \<Rightarrow> bool" where
  "stats_inv n e es \<longleftrightarrow>
     RequestCount es = int n \<and> ErrorCount es = int e \<and> e \<le> n \<and>
     histogram_total es = int n \<and>
     (\<forall>m. StatusCodes es = Some m \<longrightarrow> (\<forall>v \<in> snd ` set m. 0 \<le> v)) \<and>
     MinTimeMs es \<le> MaxTimeMs es"

section \<open>pkg/types: server statistics\<close>

text \<open>
  \<^verbatim>\<open>ServerStats\<close>; its counters carry their JSON names \<open>total_requests\<close> and
  \<open>total_errors\<close>, since \<^verbatim>\<open>RequestCount\<close> and \<^verbatim>\<open>ErrorCount\<close> name the fields of
  \<^typ>\<open>EndpointStats\<close>. The map holds pointers to the endpoints' statistics; a method
  called through such a pointer is an update of the map's entry.
\<close>

record ServerStats =
  StartTime :: int
  total_requests :: int
  total_errors :: int
  endpoints :: "(string \<times> EndpointStats) list option"

definition stats_table :: "ServerStats \<Rightarrow> (string \<times> EndpointStats) list" where
  "stats_table ss = (case endpoints ss of None \<Rightarrow> [] | Some m \<Rightarrow> m)"

text \<open>
  \<^verbatim>\<open>ServerStats.GetEndpointStats(path)\<close>: creates the map and the entry when they are
  missing. The pointer it returns is the path; \<open>endpoint_stats\<close> reads through it and
  \<open>on_endpoint\<close> calls a method through it.
\<close>

definition GetEndpointStats :: "string \<Rightarrow> ServerStats \<Rightarrow> ServerStats" where
  "GetEndpointStats path ss =
    (let m = stats_table ss
     in case map_of m path of
          None \<Rightarrow> ss\<lparr>endpoints := Some (AList.update path (new_EndpointStats path) m)\<rparr>
        | Some es \<Rightarrow> ss\<lparr>endpoints := Some m\<rparr>)"

definition endpoint_stats :: "ServerStats \<Rightarrow> string \<Rightarrow> EndpointStats" where
  "endpoint_stats ss path =
    (case map_of (stats_table ss) path of None \<Rightarrow> new_EndpointStats path | Some es \<Rightarrow> es)"

definition on_endpoint :: "string \<Rightarrow> (EndpointStats \<Rightarrow> EndpointStats) \<Rightarrow> ServerStats \<Rightarrow> ServerStats" where
  "on_endpoint path f ss =
    ss\<lparr>endpoints := Some (AList.update path (f (endpoint_stats ss path)) (stats_table ss))\<rparr>"

text \<open>\<^verbatim>\<open>ServerStats.RecordRequest(path, duration, statusCode)\<close>.\<close>

definition ServerStats_RecordRequest ::
  "int \<Rightarrow> string \<Rightarrow> int \<Rightarrow> int \<Rightarrow> ServerStats \<Rightarrow> ServerStats" where
  "ServerStats_RecordRequest now path duration statusCode ss =
    (let ss1 = ss\<lparr>total_requests := int64 (total_requests ss + 1)\<rparr>;
         ss2 = (if statusCode \<ge> 400 then ss1\<lparr>total_errors := int64 (total_errors ss1 + 1)\<rparr> else ss1);
         ss3 = GetEndpointStats path ss2
     in on_endpoint path (RecordRequest now duration statusCode) ss3)"

text \<open>The statistics \<^verbatim>\<open>NewServer\<close> starts with.\<close>

definition new_ServerStats :: "int \<Rightarrow> ServerStats" where
  "new_ServerStats t = \<lparr>StartTime = t, total_requests = 0, total_errors = 0, endpoints = Some []\<rparr>"

section \<open>internal/server: the request log\<close>

text \<open>
  \<^verbatim>\<open>RequestLogEntry\<close>; its \<^verbatim>\<open>Path\<close> and \<^verbatim>\<open>StatusCode\<close> fields are \<open>LogPath\<close> and
  \<open>LogStatus\<close> here.
\<close>

record RequestLogEntry =
  Timestamp :: int
  Method :: string
  LogPath :: string
  LogStatus :: int
  Duration :: int
  RemoteAddr :: string

text \<open>
  \<^verbatim>\<open>addToRequestLog\<close> on the server's fields \<^verbatim>\<open>requestLog\<close> and \<^verbatim>\<open>maxLogSize\<close>:
  the entry goes to the front, the slice is cut to \<^verbatim>\<open>maxLogSize\<close> when it is longer.
  \<^verbatim>\<open>NewServer\<close> sets \<^verbatim>\<open>maxLogSize\<close> to 1000 and starts with an empty log.
\<close>

definition addToRequestLog :: "nat \<Rightarrow> 'a \<Rightarrow> 'a list \<Rightarrow> 'a list" where
  "addToRequestLog maxLogSize entry requestLog =
    (let l = entry # requestLog
     in if length l > maxLogSize then take maxLogSize l else l)"

definition maxLogSize :: nat where
  "maxLogSize = 1000"

fun add_all :: "'a list \<Rightarrow> 'a list \<Rightarrow> 'a list" where
  "add_all [] l = l"
| "add_all (e # es) l = add_all es (addToRequestLog maxLogSize e l)"

section \<open>pkg/types: configuration\<close>

text \<open>
  The values of \<^verbatim>\<open>map[string]interface{}\<close> are JSON documents. Numbers are payload
  only: nothing computes with them.
\<close>

datatype json = JNull | JBool bool | JNum int | JStr string | JArr "json list"
  | JObj "(string \<times> json) list"

type_synonym json_object = "(string \<times> json) list"

record ServerConfig =
  Port :: int
  Host :: string
  StaticDir :: string

text \<open>
  \<^verbatim>\<open>EndpointConfig\<close>. The fields \<^verbatim>\<open>Response\<close> and \<^verbatim>\<open>SuccessResponse\<close> are Go maps,
  that is references: in memory \<open>'r\<close> is an optional address in the store below
  (\<open>None\<close> is \<^verbatim>\<open>nil\<close>), in a JSON document \<open>'r\<close> is the optional object itself.
\<close>

record 'r EndpointConfig =
  Type :: string
  StatusCode :: int
  Message :: string
  DelayMs :: int
  Response :: 'r
  ErrorEveryN :: int
  SuccessResponse :: 'r

text \<open>\<^verbatim>\<open>Config\<close>; \<open>'e\<close> is the endpoint table, a reference in memory.\<close>

record 'e Config =
  Server :: ServerConfig
  Endpoints :: 'e

type_synonym addr = nat
type_synonym EndpointConfig_ref = "addr option EndpointConfig"
type_synonym Config_ref = "addr option Config"
type_synonym EndpointConfig_val = "json_object option EndpointConfig"
type_synonym Config_val = "(string \<times> EndpointConfig_val) list option Config"

section \<open>The store\<close>

text \<open>
  Go maps and \<^verbatim>\<open>*types.Config\<close> pointers are shared by reference, so the objects they
  refer to live in a store: \<^verbatim>\<open>Config\<close> structs, endpoint tables
  (\<^verbatim>\<open>map[string]EndpointConfig\<close>) and JSON objects (\<^verbatim>\<open>map[string]interface{}\<close>), each
  at an address. \<open>fresh\<close> is the next unused address.
\<close>

record store =
  configs :: "addr \<Rightarrow> Config_ref"
  tables :: "addr \<Rightarrow> (string \<times> EndpointConfig_ref) list"
  objects :: "addr \<Rightarrow> json_object"
  fresh :: addr

definition empty_store :: store where
  "empty_store =
    \<lparr>configs = (\<lambda>a. \<lparr>Server = \<lparr>Port = 0, Host = [], StaticDir = []\<rparr>, Endpoints = None\<rparr>),
     tables = (\<lambda>a. []), objects = (\<lambda>a. []), fresh = 0\<rparr>"

definition new_object :: "json_object \<Rightarrow> store \<Rightarrow> addr \<times> store" where
  "new_object obj s = (fresh s, s\<lparr>objects := (objects s)(fresh s := obj), fresh := Suc (fresh s)\<rparr>)"

definition new_table :: "(string \<times> EndpointConfig_ref) list \<Rightarrow> store \<Rightarrow> addr \<times> store" where
  "new_table t s = (fresh s, s\<lparr>tables := (tables s)(fresh s := t), fresh := Suc (fresh s)\<rparr>)"

definition new_config :: "Config_ref \<Rightarrow> store \<Rightarrow> addr \<times> store" where
  "new_config c s = (fresh s, s\<lparr>configs := (configs s)(fresh s := c), fresh := Suc (fresh s)\<rparr>)"

text \<open>The value a reference stands for: every address replaced by what the store holds there.\<close>

definition read_object :: "store \<Rightarrow> addr option \<Rightarrow> json_object option" where
  "read_object s r = map_option (objects s) r"

definition read_endpoint :: "store \<Rightarrow> EndpointConfig_ref \<Rightarrow> EndpointConfig_val" where
  "read_endpoint s ec =
    \<lparr>Type = Type ec, StatusCode = StatusCode ec, Message = Message ec, DelayMs = DelayMs ec,
     Response = read_object s (Response ec), ErrorEveryN = ErrorEveryN ec,
     SuccessResponse = read_object s (SuccessResponse ec)\<rparr>"

definition read_table :: "store \<Rightarrow> addr \<Rightarrow> (string \<times> EndpointConfig_val) list" where
  "read_table s t = map (\<lambda>(k, ec). (k, read_endpoint s ec)) (tables s t)"

definition read_config :: "store \<Rightarrow> addr \<Rightarrow> Config_val" where
  "read_config s c =
    \<lparr>Server = Server (configs s c),
     Endpoints = map_option (read_table s) (Endpoints (configs s c))\<rparr>"

text \<open>Building a value in the store, as a composite literal or the JSON decoder does.\<close>

definition alloc_object :: "json_object option \<Rightarrow> store \<Rightarrow> addr option \<times> store" where
  "alloc_object r s =
    (case r of None \<Rightarrow> (None, s) | Some obj \<Rightarrow> (let (a, s') = new_object obj s in (Some a, s')))"

definition alloc_endpoint :: "EndpointConfig_val \<Rightarrow> store \<Rightarrow> EndpointConfig_ref \<times> store" where
  "alloc_endpoint ec s =
    (let (r1, s1) = alloc_object (Response ec) s;
         (r2, s2) = alloc_object (SuccessResponse ec) s1
     in (\<lparr>Type = Type ec, StatusCode = StatusCode ec, Message = Message ec, DelayMs = DelayMs ec,
          Response = r1, ErrorEveryN = ErrorEveryN ec, SuccessResponse = r2\<rparr>, s2))"

fun alloc_entries ::
  "(string \<times> EndpointConfig_val) list \<Rightarrow> store \<Rightarrow> (string \<times> EndpointConfig_ref) list \<times> store" where
  "alloc_entries [] s = ([], s)"
| "alloc_entries ((k, ec) # es) s =
    (let (ec', s1) = alloc_endpoint ec s;
         (es', s2) = alloc_entries es s1
     in ((k, ec') # es', s2))"

definition alloc_config :: "Config_val \<Rightarrow> store \<Rightarrow> addr \<times> store" where
  "alloc_config cv s =
    (case Endpoints cv of
       None \<Rightarrow> new_config \<lparr>Server = Server cv, Endpoints = None\<rparr> s
     | Some es \<Rightarrow>
         (let (es', s1) = alloc_entries es s;
              (t, s2) = new_table es' s1
          in new_config \<lparr>Server = Server cv, Endpoints = Some t\<rparr> s2))"

text \<open>The statement \<^verbatim>\<open>m[k] = v\<close> on a JSON object held by reference.\<close>

definition object_set :: "addr \<Rightarrow> string \<Rightarrow> json \<Rightarrow> store \<Rightarrow> store" where
  "object_set a k v s = s\<lparr>objects := (objects s)(a := AList.update k v (objects s a))\<rparr>"

section \<open>internal/config: the configuration manager\<close>

datatype endpoint_error =
    InvalidStatusCode int
  | NegativeDelay int
  | ErrorEveryNTooSmall int
  | UnknownEndpointType string

datatype config_error =
    InvalidPort int
  | EmptyHost
  | EmptyStaticDir
  | EmptyEndpointPath
  | InvalidEndpoint string endpoint_error

datatype io_error = MkdirFailed | WriteFailed | ReadFailed | ParseFailed

datatype error =
    NotLoaded
  | EndpointNotFound
  | InvalidConfiguration config_error
  | InvalidEndpointConfiguration endpoint_error
  | SaveFailed io_error
  | CreateDefaultFailed io_error
  | LoadFailed io_error

text \<open>\<^verbatim>\<open>validateEndpointConfig\<close>: the \<^verbatim>\<open>switch\<close> on the type tag, case by case.\<close>

definition validateEndpointConfig :: "'r EndpointConfig \<Rightarrow> endpoint_error option" where
  "validateEndpointConfig config =
    (if Type config = ''error'' then
       (if StatusCode config < 400 \<or> StatusCode config > 599
        then Some (InvalidStatusCode (StatusCode config)) else None)
     else if Type config = ''delay'' then
       (if DelayMs config < 0 then Some (NegativeDelay (DelayMs config)) else None)
     else if Type config = ''conditional_error'' then
       (if ErrorEveryN config < 1 then Some (ErrorEveryNTooSmall (ErrorEveryN config))
        else if StatusCode config < 400 \<or> StatusCode config > 599
        then Some (InvalidStatusCode (StatusCode config)) else None)
     else if Type config = ''static'' then None
     else Some (UnknownEndpointType (Type config)))"

text \<open>
  The loop of \<^verbatim>\<open>validateConfig\<close> over the endpoint table. Go ranges over a map in an
  unspecified order; the list's order stands for it, and it decides only which of
  several errors is reported, not whether there is one.
\<close>

fun validate_endpoints :: "(string \<times> 'r EndpointConfig) list \<Rightarrow> config_error option" where
  "validate_endpoints [] = None"
| "validate_endpoints ((path, endpointConfig) # rest) =
    (if path = [] then Some EmptyEndpointPath
     else case validateEndpointConfig endpointConfig of
            Some e \<Rightarrow> Some (InvalidEndpoint path e)
          | None \<Rightarrow> validate_endpoints rest)"

definition validateConfig :: "store \<Rightarrow> Config_ref \<Rightarrow> config_error option" where
  "validateConfig s config =
    (if Port (Server config) < 1 \<or> Port (Server config) > 65535
     then Some (InvalidPort (Port (Server config)))
     else if Host (Server config) = [] then Some EmptyHost
     else if StaticDir (Server config) = [] then Some EmptyStaticDir
     else case Endpoints config of
            None \<Rightarrow> None
          | Some t \<Rightarrow> validate_endpoints (tables s t))"

text \<open>
  The configuration file: absent, or bytes that the JSON decoder rejects, or the JSON
  text of a configuration. Whether the directory can be created, the file written and
  the file read is the environment's choice, held in three flags.
\<close>

datatype file_content = Unparsable | Document Config_val

record filesystem =
  config_file :: "file_content option"
  mkdir_ok :: bool
  write_ok :: bool
  read_ok :: bool

text \<open>
  \<^verbatim>\<open>Manager\<close>: \<open>config\<close> is the pointer \<^verbatim>\<open>m.config\<close>. The watchers run in a goroutine
  of their own; \<open>notified\<close> lists the configurations handed to them, in order.
\<close>

record Manager =
  configPath :: string
  config :: "addr option"
  notified :: "addr list"

record world =
  mem :: store
  fs :: filesystem
  mgr :: Manager

definition NewManager :: "string \<Rightarrow> Manager" where
  "NewManager p = \<lparr>configPath = p, config = None, notified = []\<rparr>"

text \<open>
  What \<^verbatim>\<open>MarshalIndent\<close> writes decodes to the value it was given, except that the
  fields tagged \<^verbatim>\<open>omitempty\<close> drop an empty object, which then decodes to \<^verbatim>\<open>nil\<close>.
\<close>

definition omitempty :: "json_object option \<Rightarrow> json_object option" where
  "omitempty r = (case r of Some [] \<Rightarrow> None | _ \<Rightarrow> r)"

definition marshal_endpoint :: "EndpointConfig_val \<Rightarrow> EndpointConfig_val" where
  "marshal_endpoint ec =
    ec\<lparr>Response := omitempty (Response ec), SuccessResponse := omitempty (SuccessResponse ec)\<rparr>"

definition marshal :: "Config_val \<Rightarrow> Config_val" where
  "marshal cv = cv\<lparr>Endpoints := map_option (map (\<lambda>(k, ec). (k, marshal_endpoint ec))) (Endpoints cv)\<rparr>"

text \<open>
  \<^verbatim>\<open>saveConfigToFile\<close>: \<^verbatim>\<open>MkdirAll\<close>, then \<^verbatim>\<open>MarshalIndent\<close> (which cannot fail on
  a \<^typ>\<open>json\<close> value), then \<^verbatim>\<open>WriteFile\<close>. What a failed write leaves in the file is
  not modelled: the content stays as it was.
\<close>

definition saveConfigToFile :: "addr \<Rightarrow> world \<Rightarrow> io_error option \<times> world" where
  "saveConfigToFile c w =
    (if \<not> mkdir_ok (fs w) then (Some MkdirFailed, w)
     else if \<not> write_ok (fs w) then (Some WriteFailed, w)
     else (None, w\<lparr>fs := (fs w)\<lparr>config_file := Some (Document (marshal (read_config (mem w) c)))\<rparr>\<rparr>))"

definition notifyWatchers :: "addr \<Rightarrow> world \<Rightarrow> world" where
  "notifyWatchers c w = w\<lparr>mgr := (mgr w)\<lparr>notified := notified (mgr w) @ [c]\<rparr>\<rparr>"

text \<open>\<^verbatim>\<open>createDefaultConfig\<close>: the composite literal, built in the store.\<close>

definition default_config :: Config_val where
  "default_config =
    \<lparr>Server = \<lparr>Port = 8080, Host = ''0.0.0.0'', StaticDir = ''./static''\<rparr>,
     Endpoints = Some
       [(''/api/error'',
           \<lparr>Type = ''error'', StatusCode = 500, Message = ''Internal Server Error'', DelayMs = 0,
            Response = None, ErrorEveryN = 0, SuccessResponse = None\<rparr>),
        (''/api/delay'',
           \<lparr>Type = ''delay'', StatusCode = 0, Message = [], DelayMs = 2000,
            Response = Some [(''message'', JStr ''Delayed response'')], ErrorEveryN = 0,
            SuccessResponse = None\<rparr>),
        (''/api/flaky'',
           \<lparr>Type = ''conditional_error'', StatusCode = 503, Message = [], DelayMs = 0,
            Response = None, ErrorEveryN = 3,
            SuccessResponse = Some [(''status'', JStr ''ok'')]\<rparr>)]\<rparr>"

definition createDefaultConfig :: "store \<Rightarrow> addr \<times> store" where
  "createDefaultConfig s = alloc_config default_config s"

text \<open>\<^verbatim>\<open>LoadConfig\<close>.\<close>

definition LoadConfig :: "world \<Rightarrow> error option \<times> world" where
  "LoadConfig w =
    (case config_file (fs w) of
       None \<Rightarrow>
         (let (defaultConfig, s1) = createDefaultConfig (mem w);
              w1 = w\<lparr>mem := s1\<rparr>
          in case saveConfigToFile defaultConfig w1 of
               (Some e, w2) \<Rightarrow> (Some (CreateDefaultFailed e), w2)
             | (None, w2) \<Rightarrow> (None, w2\<lparr>mgr := (mgr w2)\<lparr>config := Some defaultConfig\<rparr>\<rparr>))
     | Some content \<Rightarrow>
         (if \<not> read_ok (fs w) then (Some (LoadFailed ReadFailed), w)
          else case content of
                 Unparsable \<Rightarrow> (Some (LoadFailed ParseFailed), w)
               | Document cv \<Rightarrow>
                   (let (c, s1) = alloc_config cv (mem w);
                        w1 = w\<lparr>mem := s1\<rparr>
                    in case validateConfig s1 (configs s1 c) of
                         Some e \<Rightarrow> (Some (InvalidConfiguration e), w1)
                       | None \<Rightarrow> (None, w1\<lparr>mgr := (mgr w1)\<lparr>config := Some c\<rparr>\<rparr>))))"

text \<open>
  \<^verbatim>\<open>GetConfig\<close>: a copy of the struct with a new endpoint table, filled entry by entry
  from the live table. Each entry is copied as a struct, references included.
\<close>

definition GetConfig :: "world \<Rightarrow> addr option \<times> world" where
  "GetConfig w =
    (case config (mgr w) of
       None \<Rightarrow> (None, w)
     | Some c \<Rightarrow>
         (let live = configs (mem w) c;
              entries = (case Endpoints live of None \<Rightarrow> [] | Some t \<Rightarrow> tables (mem w) t);
              (t', s1) = new_table entries (mem w);
              (configCopy, s2) = new_config (live\<lparr>Endpoints := Some t'\<rparr>) s1
          in (Some configCopy, w\<lparr>mem := s2\<rparr>)))"

text \<open>\<^verbatim>\<open>UpdateConfig\<close>: validate, save, then swap the pointer and notify.\<close>

definition UpdateConfig :: "addr \<Rightarrow> world \<Rightarrow> error option \<times> world" where
  "UpdateConfig newConfig w =
    (case validateConfig (mem w) (configs (mem w) newConfig) of
       Some e \<Rightarrow> (Some (InvalidConfiguration e), w)
     | None \<Rightarrow>
         (case saveConfigToFile newConfig w of
            (Some e, w1) \<Rightarrow> (Some (SaveFailed e), w1)
          | (None, w1) \<Rightarrow>
              (None, notifyWatchers newConfig (w1\<lparr>mgr := (mgr w1)\<lparr>config := Some newConfig\<rparr>\<rparr>))))"

text \<open>
  \<^verbatim>\<open>UpdateEndpoint\<close>: validate the endpoint, create the table when it is \<^verbatim>\<open>nil\<close>,
  store the entry in the live table, then save and notify.
\<close>

definition UpdateEndpoint :: "string \<Rightarrow> EndpointConfig_ref \<Rightarrow> world \<Rightarrow> error option \<times> world" where
  "UpdateEndpoint path endpointConfig w =
    (case config (mgr w) of
       None \<Rightarrow> (Some NotLoaded, w)
     | Some c \<Rightarrow>
         (case validateEndpointConfig endpointConfig of
            Some e \<Rightarrow> (Some (InvalidEndpointConfiguration e), w)
          | None \<Rightarrow>
              (let (t, s1) =
                     (case Endpoints (configs (mem w) c) of
                        Some t \<Rightarrow> (t, mem w)
                      | None \<Rightarrow>
                          (let (t, s) = new_table [] (mem w)
                           in (t, s\<lparr>configs := (configs s)(c := (configs s c)\<lparr>Endpoints := Some t\<rparr>)\<rparr>)));
                   s2 = s1\<lparr>tables := (tables s1)(t := AList.update path endpointConfig (tables s1 t))\<rparr>
               in case saveConfigToFile c (w\<lparr>mem := s2\<rparr>) of
                    (Some e, w1) \<Rightarrow> (Some (SaveFailed e), w1)
                  | (None, w1) \<Rightarrow> (None, notifyWatchers c w1))))"

text \<open>\<^verbatim>\<open>RemoveEndpoint\<close>: delete the key from the live table, then save and notify.\<close>

definition RemoveEndpoint :: "string \<Rightarrow> world \<Rightarrow> error option \<times> world" where
  "RemoveEndpoint path w =
    (case config (mgr w) of
       None \<Rightarrow> (Some NotLoaded, w)
     | Some c \<Rightarrow>
         (case Endpoints (configs (mem w) c) of
            None \<Rightarrow> (Some EndpointNotFound, w)
          | Some t \<Rightarrow>
              (let s1 = (mem w)\<lparr>tables := (tables (mem w))(t := AList.delete path (tables (mem w) t))\<rparr>
               in case saveConfigToFile c (w\<lparr>mem := s1\<rparr>) of
                    (Some e, w1) \<Rightarrow> (Some (SaveFailed e), w1)
                  | (None, w1) \<Rightarrow> (None, notifyWatchers c w1))))"

text \<open>The configuration the manager holds, as a value; \<open>None\<close> when nothing is loaded.\<close>

definition live_config :: "world \<Rightarrow> Config_val option" where
  "live_config w = map_option (read_config (mem w)) (config (mgr w))"

section \<open>path/filepath, strings and net/http, as the handlers use them\<close>

text \<open>
  The Go library functions below are written from their documentation, for Unix paths.
  \<open>split_where\<close> is \<^verbatim>\<open>strings.Split\<close> on the separators that satisfy \<open>sep\<close>.
\<close>

fun split_where :: "(char \<Rightarrow> bool) \<Rightarrow> string \<Rightarrow> string list" where
  "split_where sep [] = [[]]"
| "split_where sep (x # xs) =
    (if sep x then [] # split_where sep xs
     else (case split_where sep xs of
             [] \<Rightarrow> [[x]]
           | e # es \<Rightarrow> (x # e) # es))"

definition is_slash :: "char \<Rightarrow> bool" where
  "is_slash x \<longleftrightarrow> x = CHR ''/''"

text \<open>The elements of a path that \<^verbatim>\<open>Clean\<close> looks at: empty ones and \<^verbatim>\<open>.\<close> are dropped.\<close>

definition path_elements :: "string \<Rightarrow> string list" where
  "path_elements p = filter (\<lambda>e. e \<noteq> [] \<and> e \<noteq> ''.'') (split_where is_slash p)"

text \<open>
  The elements kept so far are a stack, last element first. A \<^verbatim>\<open>..\<close> removes the
  element before it when there is one that is not itself \<^verbatim>\<open>..\<close>; otherwise it is kept
  in a relative path and dropped in a rooted one.
\<close>

fun clean_elements :: "bool \<Rightarrow> string list \<Rightarrow> string list \<Rightarrow> string list" where
  "clean_elements rooted [] out = out"
| "clean_elements rooted (e # es) out =
    (if e = ''..'' then
       (if out \<noteq> [] \<and> hd out \<noteq> ''..'' then clean_elements rooted es (tl out)
        else if \<not> rooted then clean_elements rooted es (e # out)
        else clean_elements rooted es out)
     else clean_elements rooted es (e # out))"

fun join_slash :: "string list \<Rightarrow> string" where
  "join_slash [] = []"
| "join_slash [e] = e"
| "join_slash (e # es) = e @ ''/'' @ join_slash es"

definition IsAbs :: "string \<Rightarrow> bool" where
  "IsAbs p \<longleftrightarrow> (case p of [] \<Rightarrow> False | x # xs \<Rightarrow> is_slash x)"

definition Clean :: "string \<Rightarrow> string" where
  "Clean p =
    (if p = [] then ''.''
     else let out = rev (clean_elements (IsAbs p) (path_elements p) [])
          in if IsAbs p then ''/'' @ join_slash out
             else if out = [] then ''.'' else join_slash out)"

text \<open>\<^verbatim>\<open>filepath.Join\<close> of two elements: empty elements are ignored, the result is cleaned.\<close>

definition Join :: "string \<Rightarrow> string \<Rightarrow> string" where
  "Join a b =
    (if a \<noteq> [] then Clean (a @ ''/'' @ b)
     else if b \<noteq> [] then Clean b
     else [])"

text \<open>
  \<^verbatim>\<open>filepath.Abs\<close>: fails only when a relative path needs the working directory and
  \<^verbatim>\<open>os.Getwd\<close> fails; \<open>wd\<close> is what \<^verbatim>\<open>os.Getwd\<close> returns.
\<close>

definition Abs :: "string option \<Rightarrow> string \<Rightarrow> string option" where
  "Abs wd p =
    (if IsAbs p then Some (Clean p)
     else case wd of None \<Rightarrow> None | Some d \<Rightarrow> Some (Join d p))"

definition HasPrefix :: "string \<Rightarrow> string \<Rightarrow> bool" where
  "HasPrefix s p \<longleftrightarrow> prefix p s"

text \<open>
  What a handler writes: the status line and the body. A body that is written without
  a call of \<^verbatim>\<open>WriteHeader\<close> goes out with status 200.
\<close>

datatype content =
    Text string
  | Json json
  | ConfigJson Config_val
  | StatsJson ServerStats
  | LogJson "RequestLogEntry list"

record reply =
  status :: int
  body :: content

definition http_Error :: "string \<Rightarrow> int \<Rightarrow> reply" where
  "http_Error msg code = \<lparr>status = code, body = Text msg\<rparr>"

text \<open>
  \<^verbatim>\<open>http.ServeFile\<close> rejects a URL path with a \<^verbatim>\<open>..\<close> element (split at \<^verbatim>\<open>/\<close> and
  \<^verbatim>\<open>\\<close>) with 400; what it answers otherwise depends on the files on disk and is the
  environment's function \<open>file_server\<close>. \<open>ensure_ok\<close> says that \<^verbatim>\<open>ensureStaticDir\<close>
  returns no error (the directory is there or could be created with its landing page),
  \<open>getwd\<close> is the result of \<^verbatim>\<open>os.Getwd\<close>.
\<close>

definition containsDotDot :: "string \<Rightarrow> bool" where
  "containsDotDot v \<longleftrightarrow> ''..'' \<in> set (split_where (\<lambda>x. x = CHR ''/'' \<or> x = CHR 0x5C) v)"

record static_env =
  ensure_ok :: bool
  getwd :: "string option"
  file_server :: "string \<Rightarrow> reply"

definition ServeFile :: "static_env \<Rightarrow> string \<Rightarrow> string \<Rightarrow> reply" where
  "ServeFile env urlPath name =
    (if containsDotDot urlPath then http_Error ''invalid URL path'' 400
     else file_server env name)"

section \<open>internal/server: the handlers\<close>

text \<open>
  The clock is the environment's: \<open>t_now\<close> is \<^verbatim>\<open>time.Now()\<close> when the statistics are
  recorded, \<open>t_elapsed\<close> is \<^verbatim>\<open>time.Since(start)\<close> in nanoseconds. \<^verbatim>\<open>time.Sleep\<close> in the
  delay behaviour only moves the clock.
\<close>

record clock =
  t_now :: int
  t_elapsed :: int

definition encode_object :: "json_object option \<Rightarrow> json" where
  "encode_object r = (case r of None \<Rightarrow> JNull | Some obj \<Rightarrow> JObj obj)"

definition error_json :: "string \<Rightarrow> json" where
  "error_json msg = JObj [(''error'', JStr msg)]"

text \<open>
  \<^verbatim>\<open>handleDynamicEndpoint\<close>. The remainder \<^verbatim>\<open>count % int64(config.ErrorEveryN)\<close> panics
  when \<^verbatim>\<open>ErrorEveryN\<close> is 0; the panic leaves the handler before anything is written or
  recorded.
\<close>

datatype panic = DivideByZero

definition handleDynamicEndpoint ::
  "store \<Rightarrow> string \<Rightarrow> EndpointConfig_ref \<Rightarrow> clock \<Rightarrow> ServerStats \<Rightarrow> (panic + reply) \<times> ServerStats" where
  "handleDynamicEndpoint s path cfg clk ss =
    (let ss1 = GetEndpointStats path ss;
         respond = (\<lambda>statusCode responseData ss'.
           (Inr \<lparr>status = statusCode, body = Json responseData\<rparr>,
            ServerStats_RecordRequest (t_now clk) path (t_elapsed clk) statusCode ss'))
     in if Type cfg = ''error'' then
          respond (StatusCode cfg) (error_json (Message cfg)) ss1
        else if Type cfg = ''delay'' then
          respond 200 (encode_object (read_object s (Response cfg))) ss1
        else if Type cfg = ''conditional_error'' then
          (let ss2 = on_endpoint path IncrementConditionalCount ss1;
               count = GetConditionalCount (endpoint_stats ss2 path)
           in if ErrorEveryN cfg = 0 then (Inl DivideByZero, ss2)
              else if count smod ErrorEveryN cfg = 0 then
                respond (StatusCode cfg) (error_json ''Conditional error triggered'') ss2
              else
                respond 200 (encode_object (read_object s (SuccessResponse cfg))) ss2)
        else
          respond 500 (error_json ''Unknown endpoint type'') ss1)"

text \<open>
  \<^verbatim>\<open>handleStaticFile\<close>. \<open>clean_url_path\<close> is its local \<^verbatim>\<open>cleanPath\<close>: the cleaned
  URL path, with \<^verbatim>\<open>/index.html\<close> for the root.
\<close>

definition clean_url_path :: "string \<Rightarrow> string" where
  "clean_url_path urlPath = (if Clean urlPath = ''/'' then ''/index.html'' else Clean urlPath)"

definition handleStaticFile ::
  "static_env \<Rightarrow> string \<Rightarrow> string \<Rightarrow> clock \<Rightarrow> ServerStats \<Rightarrow> reply \<times> ServerStats" where
  "handleStaticFile env urlPath staticDir clk ss =
    (let recorded = (\<lambda>code. ServerStats_RecordRequest (t_now clk) urlPath (t_elapsed clk) code ss)
     in if \<not> ensure_ok env then (http_Error ''Internal server error'' 500, recorded 500)
        else
          (let cleanPath = clean_url_path urlPath;
               filePath = Join staticDir cleanPath
           in case Abs (getwd env) staticDir of
                None \<Rightarrow> (http_Error ''Internal server error'' 500, recorded 500)
              | Some absStaticDir \<Rightarrow>
                  (case Abs (getwd env) filePath of
                     None \<Rightarrow> (http_Error ''Internal server error'' 500, recorded 500)
                   | Some absFilePath \<Rightarrow>
                       if \<not> HasPrefix absFilePath absStaticDir
                       then (http_Error ''Forbidden'' 403, recorded 403)
                       else (ServeFile env urlPath filePath, recorded 200))))"

text \<open>
  A request, as the handlers read it. The two \<open>Body\<close> fields are what
  \<^verbatim>\<open>json.NewDecoder(r.Body).Decode\<close> gives for the body when it decodes into a
  \<^verbatim>\<open>types.Config\<close> and into the \<^verbatim>\<open>{path, config}\<close> struct of \<^verbatim>\<open>handleAddEndpoint\<close>;
  \<open>None\<close> is a decoding error. \<open>QueryPath\<close> is \<^verbatim>\<open>r.URL.Query().Get("path")\<close>.
\<close>

record Request =
  ReqMethod :: string
  URLPath :: string
  RequestURI :: string
  QueryPath :: string
  ReqRemoteAddr :: string
  BodyAsConfig :: "Config_val option"
  BodyAsEndpoint :: "(string \<times> EndpointConfig_val) option"

text \<open>The server's state: the manager with its store and disk, the statistics, the log.\<close>

record server_state =
  sys :: world
  stats :: ServerStats
  requestLog :: "RequestLogEntry list"

definition success_json :: "string \<Rightarrow> json" where
  "success_json msg = JObj [(''status'', JStr ''success''), (''message'', JStr msg)]"

text \<open>
  The handlers behind \<^verbatim>\<open>/config\<close>. The text of an error reply is cut after its fixed
  part; the formatted error that follows it in the source is left out.
\<close>

definition handleGetConfig :: "server_state \<Rightarrow> reply \<times> server_state" where
  "handleGetConfig sv =
    (case GetConfig (sys sv) of
       (None, w) \<Rightarrow> (http_Error ''Configuration not loaded'' 500, sv\<lparr>sys := w\<rparr>)
     | (Some c, w) \<Rightarrow>
         (\<lparr>status = 200, body = ConfigJson (read_config (mem w) c)\<rparr>, sv\<lparr>sys := w\<rparr>))"

definition handleUpdateConfig :: "Request \<Rightarrow> server_state \<Rightarrow> reply \<times> server_state" where
  "handleUpdateConfig r sv =
    (case BodyAsConfig r of
       None \<Rightarrow> (http_Error ''Invalid JSON'' 400, sv)
     | Some cv \<Rightarrow>
         (let (newConfig, s1) = alloc_config cv (mem (sys sv))
          in case UpdateConfig newConfig ((sys sv)\<lparr>mem := s1\<rparr>) of
               (Some e, w) \<Rightarrow> (http_Error ''Failed to update configuration'' 400, sv\<lparr>sys := w\<rparr>)
             | (None, w) \<Rightarrow>
                 (\<lparr>status = 200, body = Json (success_json ''Configuration updated'')\<rparr>,
                  sv\<lparr>sys := w\<rparr>)))"

definition handleAddEndpoint :: "Request \<Rightarrow> server_state \<Rightarrow> reply \<times> server_state" where
  "handleAddEndpoint r sv =
    (case BodyAsEndpoint r of
       None \<Rightarrow> (http_Error ''Invalid JSON'' 400, sv)
     | Some (path, ecv) \<Rightarrow>
         (if path = [] then (http_Error ''Path is required'' 400, sv)
          else
            (let (ec, s1) = alloc_endpoint ecv (mem (sys sv))
             in case UpdateEndpoint path ec ((sys sv)\<lparr>mem := s1\<rparr>) of
                  (Some e, w) \<Rightarrow> (http_Error ''Failed to add endpoint'' 400, sv\<lparr>sys := w\<rparr>)
                | (None, w) \<Rightarrow>
                    (\<lparr>status = 200, body = Json (success_json ''Endpoint added'')\<rparr>,
                     sv\<lparr>sys := w\<rparr>))))"

definition handleRemoveEndpoint :: "Request \<Rightarrow> server_state \<Rightarrow> reply \<times> server_state" where
  "handleRemoveEndpoint r sv =
    (if QueryPath r = [] then (http_Error ''Path parameter is required'' 400, sv)
     else case RemoveEndpoint (QueryPath r) (sys sv) of
            (Some e, w) \<Rightarrow> (http_Error ''Failed to remove endpoint'' 400, sv\<lparr>sys := w\<rparr>)
          | (None, w) \<Rightarrow>
              (\<lparr>status = 200, body = Json (success_json ''Endpoint removed'')\<rparr>, sv\<lparr>sys := w\<rparr>))"

text \<open>
  \<^verbatim>\<open>handleConfig\<close>: the deferred call records the request under \<^verbatim>\<open>/config\<close> with
  \<^verbatim>\<open>http.StatusOK\<close> after the method's handler has run.
\<close>

definition handleConfig :: "Request \<Rightarrow> clock \<Rightarrow> server_state \<Rightarrow> reply \<times> server_state" where
  "handleConfig r clk sv =
    (let (rep, sv1) =
           (if ReqMethod r = ''GET'' then handleGetConfig sv
            else if ReqMethod r = ''PUT'' then handleUpdateConfig r sv
            else if ReqMethod r = ''POST'' then handleAddEndpoint r sv
            else if ReqMethod r = ''DELETE'' then handleRemoveEndpoint r sv
            else (http_Error ''Method not allowed'' 405, sv))
     in (rep, sv1\<lparr>stats :=
           ServerStats_RecordRequest (t_now clk) ''/config'' (t_elapsed clk) 200 (stats sv1)\<rparr>))"

text \<open>\<^verbatim>\<open>handleStats\<close>: the snapshot is taken before the deferred call records the request.\<close>

definition handleStats :: "clock \<Rightarrow> server_state \<Rightarrow> reply \<times> server_state" where
  "handleStats clk sv =
    (\<lparr>status = 200, body = StatsJson (stats sv)\<rparr>,
     sv\<lparr>stats := ServerStats_RecordRequest (t_now clk) ''/stats'' (t_elapsed clk) 200 (stats sv)\<rparr>)"

text \<open>\<^verbatim>\<open>handleRequestLog\<close>: it reads the log and touches nothing else.\<close>

definition handleRequestLog :: "Request \<Rightarrow> server_state \<Rightarrow> reply \<times> server_state" where
  "handleRequestLog r sv =
    (if ReqMethod r \<noteq> ''GET'' then (http_Error ''Method not allowed'' 405, sv)
     else (\<lparr>status = 200, body = LogJson (requestLog sv)\<rparr>, sv))"

text \<open>\<^verbatim>\<open>handleRequest\<close>: a configured endpoint when the path is a key of the table, a file otherwise.\<close>

definition handleRequest ::
  "static_env \<Rightarrow> Request \<Rightarrow> clock \<Rightarrow> server_state \<Rightarrow> (panic + reply) \<times> server_state" where
  "handleRequest env r clk sv =
    (case GetConfig (sys sv) of
       (None, w) \<Rightarrow>
         (Inr (http_Error ''Server configuration not loaded'' 500),
          sv\<lparr>sys := w,
             stats := ServerStats_RecordRequest (t_now clk) (URLPath r) (t_elapsed clk) 500 (stats sv)\<rparr>)
     | (Some c, w) \<Rightarrow>
         (let cfg = configs (mem w) c;
              entries = (case Endpoints cfg of None \<Rightarrow> [] | Some t \<Rightarrow> tables (mem w) t)
          in case map_of entries (URLPath r) of
               Some endpointConfig \<Rightarrow>
                 (let (res, ss) = handleDynamicEndpoint (mem w) (URLPath r) endpointConfig clk (stats sv)
                  in (res, sv\<lparr>sys := w, stats := ss\<rparr>))
             | None \<Rightarrow>
                 (let (rep, ss) = handleStaticFile env (URLPath r) (StaticDir (Server cfg)) clk (stats sv)
                  in (Inr rep, sv\<lparr>sys := w, stats := ss\<rparr>))))"

text \<open>
  \<^verbatim>\<open>logRequestMiddleware\<close>, after the wrapped handler has returned: the entry carries the
  status that went through \<^verbatim>\<open>WriteHeader\<close> (200 when nothing did) and goes to the log.
\<close>

definition logRequestMiddleware :: "Request \<Rightarrow> int \<Rightarrow> int \<Rightarrow> reply \<Rightarrow> server_state \<Rightarrow> server_state" where
  "logRequestMiddleware r startTime duration rep sv =
    sv\<lparr>requestLog := addToRequestLog maxLogSize
          \<lparr>Timestamp = startTime, Method = ReqMethod r, LogPath = RequestURI r,
           LogStatus = status rep, Duration = Milliseconds duration,
           RemoteAddr = ReqRemoteAddr r\<rparr>
          (requestLog sv)\<rparr>"

text \<open>A sequence of requests to one endpoint, each with its clock, and their outcomes.\<close>

fun dispatch_all ::
  "store \<Rightarrow> string \<Rightarrow> EndpointConfig_ref \<Rightarrow> clock list \<Rightarrow> ServerStats \<Rightarrow> (panic + reply) list" where
  "dispatch_all s path cfg [] ss = []"
| "dispatch_all s path cfg (clk # clks) ss =
    (let (res, ss') = handleDynamicEndpoint s path cfg clk ss
     in res # dispatch_all s path cfg clks ss')"

section \<open>Notions used in the statements\<close>

text \<open>
  The two replies of a \<^verbatim>\<open>conditional_error\<close> endpoint, as the specification words
  them: the error reply with the endpoint's status code, and the success reply with
  status 200 and the endpoint's \<^verbatim>\<open>success_response\<close>.
\<close>

definition expected_error_reply :: "EndpointConfig_ref \<Rightarrow> reply" where
  "expected_error_reply cfg =
    \<lparr>status = StatusCode cfg, body = Json (JObj [(''error'', JStr ''Conditional error triggered'')])\<rparr>"

definition expected_success_reply :: "store \<Rightarrow> EndpointConfig_ref \<Rightarrow> reply" where
  "expected_success_reply s cfg =
    \<lparr>status = 200, body = Json (encode_object (read_object s (SuccessResponse cfg)))\<rparr>"

text \<open>A path element that \<^verbatim>\<open>Clean\<close> keeps: not empty, not \<^verbatim>\<open>.\<close>, without a separator.\<close>

definition plain :: "string \<Rightarrow> bool" where
  "plain e \<longleftrightarrow> e \<noteq> [] \<and> e \<noteq> ''.'' \<and> (\<forall>c \<in> set e. \<not> is_slash c)"

text \<open>
  The live endpoint table: \<open>None\<close> when no configuration is loaded or the table is
  \<^verbatim>\<open>nil\<close>.
\<close>

definition endpoint_table :: "world \<Rightarrow> (string \<times> EndpointConfig_ref) list option" where
  "endpoint_table w =
    (case config (mgr w) of
       None \<Rightarrow> None
     | Some c \<Rightarrow> map_option (tables (mem w)) (Endpoints (configs (mem w) c)))"

text \<open>
  A caller's statement \<^verbatim>\<open>cfg.Endpoints[path].Response[k] = v\<close> on a configuration it
  holds a pointer to. Reading a missing entry gives the zero struct, whose \<^verbatim>\<open>Response\<close>
  is \<^verbatim>\<open>nil\<close>, and assigning into a \<^verbatim>\<open>nil\<close> map panics: that is \<open>None\<close>.
\<close>

definition set_response_key :: "addr \<Rightarrow> string \<Rightarrow> string \<Rightarrow> json \<Rightarrow> store \<Rightarrow> store option" where
  "set_response_key c path k v s =
    (let entries = (case Endpoints (configs s c) of None \<Rightarrow> [] | Some t \<Rightarrow> tables s t)
     in case map_of entries path of
          None \<Rightarrow> None
        | Some ec \<Rightarrow> (case Response ec of None \<Rightarrow> None | Some a \<Rightarrow> Some (object_set a k v s)))"

section \<open>Example states and inputs\<close>

text \<open>
  A server started where no configuration file exists: \<^verbatim>\<open>LoadConfig\<close> writes and adopts
  the default configuration. \<open>readonly_world\<close> is the same server after the
  configuration file has become unwritable.
\<close>

definition fresh_world :: world where
  "fresh_world =
    \<lparr>mem = empty_store,
     fs = \<lparr>config_file = None, mkdir_ok = True, write_ok = True, read_ok = True\<rparr>,
     mgr = NewManager ''configs/default.json''\<rparr>"

definition loaded_world :: world where
  "loaded_world = snd (LoadConfig fresh_world)"

definition readonly_world :: world where
  "readonly_world = loaded_world\<lparr>fs := (fs loaded_world)\<lparr>write_ok := False\<rparr>\<rparr>"

definition example_server :: server_state where
  "example_server = \<lparr>sys = loaded_world, stats = new_ServerStats 0, requestLog = []\<rparr>"

definition example_clock :: clock where
  "example_clock = \<lparr>t_now = 1, t_elapsed = 0\<rparr>"

text \<open>An endpoint to add: \<^verbatim>\<open>{"type": "error", "status_code": 404, "message": "t"}\<close>.\<close>

definition test_endpoint :: EndpointConfig_ref where
  "test_endpoint =
    \<lparr>Type = ''error'', StatusCode = 404, Message = ''t'', DelayMs = 0, Response = None,
     ErrorEveryN = 0, SuccessResponse = None\<rparr>"

text \<open>An endpoint with the tag \<^verbatim>\<open>static\<close> and every other field zero.\<close>

definition static_endpoint :: EndpointConfig_ref where
  "static_endpoint =
    \<lparr>Type = ''static'', StatusCode = 0, Message = [], DelayMs = 0, Response = None,
     ErrorEveryN = 0, SuccessResponse = None\<rparr>"

text \<open>
  The default configuration's \<^verbatim>\<open>/api/flaky\<close> as it lies in the store of
  \<open>loaded_world\<close>, and the same endpoint with \<^verbatim>\<open>error_every_n = 1\<close>.
\<close>

definition flaky_endpoint :: EndpointConfig_ref where
  "flaky_endpoint =
    \<lparr>Type = ''conditional_error'', StatusCode = 503, Message = [], DelayMs = 0, Response = None,
     ErrorEveryN = 3, SuccessResponse = Some 1\<rparr>"

definition always_failing_endpoint :: EndpointConfig_ref where
  "always_failing_endpoint = flaky_endpoint\<lparr>ErrorEveryN := 1\<rparr>"

text \<open>\<^verbatim>\<open>PUT /config\<close> with the default configuration changed to port 70000.\<close>

definition put_invalid_port :: Request where
  "put_invalid_port =
    \<lparr>ReqMethod = ''PUT'', URLPath = ''/config'', RequestURI = ''/config'', QueryPath = [],
     ReqRemoteAddr = ''127.0.0.1:50000'',
     BodyAsConfig = Some (default_config\<lparr>Server := (Server default_config)\<lparr>Port := 70000\<rparr>\<rparr>),
     BodyAsEndpoint = None\<rparr>"

text \<open>
  A static directory that exists, the working directory \<^verbatim>\<open>/srv/app\<close>, and a file
  server that finds no file.
\<close>

definition no_files :: "string \<Rightarrow> reply" where
  "no_files name = http_Error ''404 page not found'' 404"

definition example_env :: static_env where
  "example_env = \<lparr>ensure_ok = True, getwd = Some ''/srv/app'', file_server = no_files\<rparr>"

text \<open>
  A caller takes a snapshot of the live configuration of \<open>loaded_world\<close> and
  changes the \<^verbatim>\<open>message\<close> key of the response of \<^verbatim>\<open>/api/delay\<close> in the snapshot.
\<close>

definition snapshot_world :: world where
  "snapshot_world = snd (GetConfig loaded_world)"

definition mutated_snapshot_world :: "world option" where
  "mutated_snapshot_world =
    (case fst (GetConfig loaded_world) of
       None \<Rightarrow> None
     | Some c \<Rightarrow>
         map_option (\<lambda>s. snapshot_world\<lparr>mem := s\<rparr>)
           (set_response_key c ''/api/delay'' ''message'' (JStr ''changed'') (mem snapshot_world)))"

section \<open>The statistics of an endpoint\<close>

lemma int64_id: "- (2 ^ 63) \<le> k \<Longrightarrow> k < 2 ^ 63 \<Longrightarrow> int64 k = k"
  unfolding int64_def by (rule signed_take_bit_int_eq_self)

lemma sum_snd_update:
  "sum_list (map snd (AList.update k (map_get0 m k + 1) m)) = sum_list (map snd m) + 1"
  by (induction m) (auto simp: map_get0_def)

lemma sum_snd_nonneg:
  "\<forall>v \<in> snd ` set m. (0::int) \<le> v \<Longrightarrow> 0 \<le> sum_list (map snd m)"
  by (induction m) auto

lemma map_get0_le_sum:
  "\<forall>v \<in> snd ` set m. 0 \<le> v \<Longrightarrow> map_get0 m k \<le> sum_list (map snd m)"
proof (induction m)
  case Nil
  then show ?case by (simp add: map_get0_def)
next
  case (Cons a m)
  then have "0 \<le> snd a" "0 \<le> sum_list (map snd m)" "map_get0 m k \<le> sum_list (map snd m)"
    by (auto intro: sum_snd_nonneg)
  then show ?case by (cases a) (auto simp: map_get0_def)
qed

lemma map_get0_nonneg:
  "\<forall>v \<in> snd ` set m. 0 \<le> v \<Longrightarrow> 0 \<le> map_get0 m k"
  by (auto simp: map_get0_def split: option.splits dest!: map_of_SomeD)

lemma update_nonneg:
  "\<forall>v \<in> snd ` set m. 0 \<le> v \<Longrightarrow> 0 \<le> w \<Longrightarrow>
   \<forall>v \<in> snd ` set (AList.update k w m). (0::int) \<le> v"
  by (induction m) auto

text \<open>One call of \<^verbatim>\<open>RecordRequest\<close> keeps the invariant while the counters cannot wrap.\<close>

lemma stats_inv_RecordRequest:
  assumes inv: "stats_inv n e es" and bound: "n + 1 < 2 ^ 63"
  shows "stats_inv (Suc n) (if sc \<ge> 400 then Suc e else e) (RecordRequest t d sc es)"
proof -
  define codes where "codes = (case StatusCodes es of None \<Rightarrow> [] | Some m \<Rightarrow> m)"
  have nn: "\<forall>v \<in> snd ` set codes. 0 \<le> v"
  proof (cases "StatusCodes es")
    case None
    then show ?thesis by (simp add: codes_def)
  next
    case (Some m)
    then show ?thesis using inv by (simp add: codes_def stats_inv_def)
  qed
  have tot: "sum_list (map snd codes) = int n"
    using inv by (auto simp: stats_inv_def codes_def histogram_total_def split: option.splits)
  have nlt: "int n + 1 < 2 ^ 63"
    using bound by (metis of_nat_1 of_nat_add of_nat_less_iff of_nat_numeral of_nat_power)
  have rc: "int64 (int n + 1) = int n + 1"
    using nlt by (intro int64_id) auto
  have ec: "int64 (int e + 1) = int e + 1"
    using nlt inv by (intro int64_id) (auto simp: stats_inv_def)
  have g0: "0 \<le> map_get0 codes sc" and gle: "map_get0 codes sc \<le> int n"
    using map_get0_nonneg [OF nn] map_get0_le_sum [OF nn, of sc] tot by auto
  have hc: "int64 (map_get0 codes sc + 1) = map_get0 codes sc + 1"
    using g0 gle nlt by (intro int64_id) auto
  have nn': "\<forall>v \<in> snd ` set (AList.update sc (map_get0 codes sc + 1) codes). 0 \<le> v"
    using update_nonneg [OF nn, of "map_get0 codes sc + 1" sc] g0 by simp
  show ?thesis
    using inv rc ec hc nn' sum_snd_update [of sc codes] tot
    unfolding stats_inv_def RecordRequest_def Let_def histogram_total_def codes_def [symmetric]
    by (simp add: codes_def [symmetric])
qed

lemma stats_inv_record_all:
  "stats_inv n e es \<Longrightarrow> n + length rs < 2 ^ 63 \<Longrightarrow>
   stats_inv (n + length rs) (e + error_statuses rs) (record_all rs es)"
proof (induction rs arbitrary: n e es)
  case Nil
  then show ?case by (simp add: error_statuses_def)
next
  case (Cons r rs)
  obtain t d sc where r: "r = (t, d, sc)" by (cases r)
  have "stats_inv (Suc n) (if sc \<ge> 400 then Suc e else e) (RecordRequest t d sc es)"
    using Cons.prems by (intro stats_inv_RecordRequest) auto
  moreover have "Suc n + length rs < 2 ^ 63"
    using Cons.prems(2) by simp
  ultimately have "stats_inv (Suc n + length rs)
      ((if sc \<ge> 400 then Suc e else e) + error_statuses rs)
      (record_all rs (RecordRequest t d sc es))"
    by (rule Cons.IH)
  then show ?case
    by (cases "sc \<ge> 400") (simp_all add: r error_statuses_def)
qed

lemma stats_inv_new: "stats_inv 0 0 (new_EndpointStats p)"
  by (simp add: stats_inv_def new_EndpointStats_def histogram_total_def)

text \<open>
  C3. On the statistics of an endpoint, as \<^verbatim>\<open>GetEndpointStats\<close> creates them, after any
  sequence of \<^verbatim>\<open>RecordRequest\<close> calls short enough for the 64-bit counters (fewer than
  \<open>2^63\<close> calls): the error count is at most the request count, the histogram's values
  sum to the request count, the error count is the number of recorded requests with
  status 400 or more, and the minimum time is at most the maximum time.
\<close>

theorem C3_stats_invariants:
  assumes "length rs < 2 ^ 63"
  shows "ErrorCount (record_all rs (new_EndpointStats p)) \<le> RequestCount (record_all rs (new_EndpointStats p))
    \<and> histogram_total (record_all rs (new_EndpointStats p)) = RequestCount (record_all rs (new_EndpointStats p))
    \<and> RequestCount (record_all rs (new_EndpointStats p)) = int (length rs)
    \<and> ErrorCount (record_all rs (new_EndpointStats p)) = int (error_statuses rs)
    \<and> MinTimeMs (record_all rs (new_EndpointStats p)) \<le> MaxTimeMs (record_all rs (new_EndpointStats p))"
  using stats_inv_record_all [OF stats_inv_new, of rs p] assms
  by (simp add: stats_inv_def)

theorem C3_stats_invariants_witness:
  "length [(1, 0, 200), (2, 5000000, 500), (3, 2000000, 404 :: int)] < 2 ^ 63
   \<and> RequestCount (record_all [(1, 0, 200), (2, 5000000, 500), (3, 2000000, 404)] (new_EndpointStats ''/api/error'')) = 3
   \<and> ErrorCount (record_all [(1, 0, 200), (2, 5000000, 500), (3, 2000000, 404)] (new_EndpointStats ''/api/error'')) = 2
   \<and> histogram_total (record_all [(1, 0, 200), (2, 5000000, 500), (3, 2000000, 404)] (new_EndpointStats ''/api/error'')) = 3
   \<and> MinTimeMs (record_all [(1, 0, 200), (2, 5000000, 500), (3, 2000000, 404)] (new_EndpointStats ''/api/error''))
       \<le> MaxTimeMs (record_all [(1, 0, 200), (2, 5000000, 500), (3, 2000000, 404)] (new_EndpointStats ''/api/error''))"
  using C3_stats_invariants [of "[(1, 0, 200), (2, 5000000, 500), (3, 2000000, 404)]" "''/api/error''"]
  by (simp add: error_statuses_def)

text \<open>
  What the minimum field does track: when every recorded time is at least 1 ms, it is the
  minimum of the recorded times.
\<close>

lemma MinTimeMs_RecordRequest:
  "MinTimeMs (RecordRequest t d sc es) =
     (if MinTimeMs es = 0 \<or> Milliseconds d < MinTimeMs es then Milliseconds d else MinTimeMs es)"
  by (simp add: RecordRequest_def Let_def)

lemma Min_insert_min:
  "finite S \<Longrightarrow> Min (insert (min a b) S) = Min (insert a (insert b S))"
  by (cases "S = {}") (simp_all add: min.assoc)

lemma MinTimeMs_record_all_positive:
  assumes "\<forall>d \<in> set (elapsed_ms rs). 0 < d" and "0 \<le> MinTimeMs es"
  shows "MinTimeMs (record_all rs es) =
           (if MinTimeMs es = 0 then (if rs = [] then 0 else Min (set (elapsed_ms rs)))
            else Min (insert (MinTimeMs es) (set (elapsed_ms rs))))"
  using assms
proof (induction rs arbitrary: es)
  case Nil
  then show ?case by (simp add: elapsed_ms_def)
next
  case (Cons r rs)
  obtain t d sc where r: "r = (t, d, sc)" by (cases r)
  define es' where "es' = RecordRequest t d sc es"
  have pos: "0 < Milliseconds d" and rest: "\<forall>d \<in> set (elapsed_ms rs). 0 < d"
    using Cons.prems(1) by (auto simp: r elapsed_ms_def)
  have m': "MinTimeMs es' = (if MinTimeMs es = 0 then Milliseconds d else min (Milliseconds d) (MinTimeMs es))"
    by (auto simp: es'_def MinTimeMs_RecordRequest)
  then have p': "0 < MinTimeMs es'" using pos Cons.prems(2) by auto
  have "MinTimeMs (record_all rs es') = Min (insert (MinTimeMs es') (set (elapsed_ms rs)))"
    using Cons.IH [OF rest, of es'] p' by simp
  moreover have "elapsed_ms (r # rs) = Milliseconds d # elapsed_ms rs"
    by (simp add: r elapsed_ms_def)
  ultimately show ?case
    using m' Min_insert_min [of "set (elapsed_ms rs)" "MinTimeMs es" "Milliseconds d"]
    by (simp add: r es'_def [symmetric] min.commute)
qed

lemma MinTimeMs_is_minimum_of_positive_times:
  assumes "rs \<noteq> []" and "\<forall>d \<in> set (elapsed_ms rs). 0 < d"
  shows "MinTimeMs (record_all rs (new_EndpointStats p)) = Min (set (elapsed_ms rs))"
  using MinTimeMs_record_all_positive [OF assms(2), of "new_EndpointStats p"] assms(1)
  by (simp add: new_EndpointStats_def)

text \<open>
  C9. The minimum field is not the minimum of the recorded times: \<^verbatim>\<open>RecordRequest\<close> reads
  a minimum of 0 as "nothing recorded yet". After a request of 0 ms and one of 5 ms the
  recorded times are 0 and 5, and the field is 5; after the request of 0 ms alone the
  field is 0 although a request has been recorded.
\<close>

theorem C9_min_time_sentinel:
  "elapsed_ms [(1, 0, 200), (2, 5000000, 200)] = [0, 5]
   \<and> MinTimeMs (record_all [(1, 0, 200), (2, 5000000, 200)] (new_EndpointStats ''/api/delay'')) = 5
   \<and> MinTimeMs (record_all [(1, 0, 200)] (new_EndpointStats ''/api/delay'')) = 0"
  by code_simp

section \<open>The request log\<close>

lemma add_all_take:
  "length l \<le> maxLogSize \<Longrightarrow> add_all es l = take maxLogSize (rev es @ l)"
proof (induction es arbitrary: l)
  case Nil
  then show ?case by simp
next
  case (Cons e es)
  have "length (addToRequestLog maxLogSize e l) \<le> maxLogSize"
    by (simp add: addToRequestLog_def Let_def)
  from Cons.IH [OF this] show ?case
    by (simp add: addToRequestLog_def Let_def maxLogSize_def take_Cons') 
qed

text \<open>
  C4. \<^verbatim>\<open>maxLogSize\<close> is 1000. One append puts its entry at position 0 and keeps the
  first 999 earlier entries in their order, so the entry that falls off a full log is the
  oldest. After any sequence of appends to the empty log, the log is the last 1000
  entries, newest first, and its length is at most 1000.
\<close>

theorem C4_request_log_bounded_newest_first:
  "maxLogSize = 1000
   \<and> addToRequestLog maxLogSize e l = e # take 999 l
   \<and> add_all es [] = take 1000 (rev es)
   \<and> length (add_all es []) \<le> 1000"
proof -
  have "addToRequestLog maxLogSize e l = e # take 999 l"
    by (simp add: addToRequestLog_def Let_def maxLogSize_def take_Cons')
  moreover have "add_all es [] = take 1000 (rev es)"
    using add_all_take [of "[]" es] by (simp add: maxLogSize_def)
  ultimately show ?thesis by (simp add: maxLogSize_def)
qed

section \<open>The conditional error pattern\<close>

lemma endpoint_stats_on_endpoint [simp]:
  "endpoint_stats (on_endpoint p f ss) p = f (endpoint_stats ss p)"
  by (simp add: endpoint_stats_def on_endpoint_def stats_table_def update_conv')

lemma endpoint_stats_GetEndpointStats [simp]:
  "endpoint_stats (GetEndpointStats p ss) p = endpoint_stats ss p"
  by (simp add: endpoint_stats_def GetEndpointStats_def stats_table_def Let_def update_conv'
      split: option.splits)

lemma ConditionalCount_RecordRequest [simp]:
  "ConditionalCount (RecordRequest t d sc es) = ConditionalCount es"
  by (simp add: RecordRequest_def Let_def)

lemma endpoint_stats_total [simp]:
  "endpoint_stats (ss\<lparr>total_requests := a\<rparr>) p = endpoint_stats ss p"
  "endpoint_stats (ss\<lparr>total_errors := b\<rparr>) p = endpoint_stats ss p"
  by (simp_all add: endpoint_stats_def stats_table_def)

lemma ConditionalCount_ServerStats_RecordRequest [simp]:
  "ConditionalCount (endpoint_stats (ServerStats_RecordRequest t p d sc ss) p)
     = ConditionalCount (endpoint_stats ss p)"
  by (simp add: ServerStats_RecordRequest_def Let_def)

lemma smod_nonneg: "0 \<le> k \<Longrightarrow> 0 < l \<Longrightarrow> k smod l = k mod (l::int)"
  by (simp add: signed_modulo_int_def sgn_if)

lemma conditional_step:
  assumes ty: "Type cfg = ''conditional_error''" and n: "1 \<le> ErrorEveryN cfg"
    and cnt: "ConditionalCount (endpoint_stats ss path) = int k" and k: "Suc k < 2 ^ 63"
  shows "fst (handleDynamicEndpoint s path cfg clk ss) =
           Inr (if ErrorEveryN cfg dvd int (Suc k) then expected_error_reply cfg
                else expected_success_reply s cfg)"
    and "ConditionalCount (endpoint_stats (snd (handleDynamicEndpoint s path cfg clk ss)) path) = int (Suc k)"
proof -
  have "int k + 1 < 2 ^ 63"
    using k by (metis of_nat_Suc of_nat_less_iff of_nat_numeral of_nat_power add.commute)
  then have w: "int64 (int k + 1) = int k + 1"
    by (intro int64_id) auto
  have m: "(int k + 1) smod ErrorEveryN cfg = (int k + 1) mod ErrorEveryN cfg"
    using n by (intro smod_nonneg) auto
  show "fst (handleDynamicEndpoint s path cfg clk ss) =
           Inr (if ErrorEveryN cfg dvd int (Suc k) then expected_error_reply cfg
                else expected_success_reply s cfg)"
    using ty n cnt w m
    by (simp add: handleDynamicEndpoint_def Let_def IncrementConditionalCount_def
        GetConditionalCount_def expected_error_reply_def expected_success_reply_def
        error_json_def mod_eq_0_iff_dvd add.commute)
  show "ConditionalCount (endpoint_stats (snd (handleDynamicEndpoint s path cfg clk ss)) path) = int (Suc k)"
    using ty n cnt w
    by (simp add: handleDynamicEndpoint_def Let_def IncrementConditionalCount_def
        GetConditionalCount_def add.commute)
qed


lemma dispatch_all_positions:
  assumes ty: "Type cfg = ''conditional_error''" and n: "1 \<le> ErrorEveryN cfg"
  shows "ConditionalCount (endpoint_stats ss path) = int k \<Longrightarrow> k + length clks < 2 ^ 63 \<Longrightarrow>
         dispatch_all s path cfg clks ss =
           map (\<lambda>i. Inr (if ErrorEveryN cfg dvd int i then expected_error_reply cfg
                          else expected_success_reply s cfg))
               [Suc k ..< Suc (k + length clks)]"
proof (induction clks arbitrary: ss k)
  case Nil
  then show ?case by simp
next
  case (Cons clk clks)
  have k: "Suc k < 2 ^ 63" using Cons.prems(2) by simp
  note st = conditional_step [OF ty n Cons.prems(1) k, of s clk]
  have "Suc k + length clks < 2 ^ 63" using Cons.prems(2) by simp
  then have ih: "dispatch_all s path cfg clks (snd (handleDynamicEndpoint s path cfg clk ss)) =
           map (\<lambda>i. Inr (if ErrorEveryN cfg dvd int i then expected_error_reply cfg
                          else expected_success_reply s cfg))
               [Suc (Suc k) ..< Suc (Suc k + length clks)]"
    using Cons.IH [OF st(2)] by blast
  have u: "[Suc k ..< Suc (k + length (clk # clks))] = Suc k # [Suc (Suc k) ..< Suc (Suc k + length clks)]"
    by (simp add: upt_conv_Cons del: upt_Suc)
  show ?case
    unfolding u by (simp add: case_prod_beta ih st(1) del: upt_Suc)
qed

lemma count_multiples: "0 < d \<Longrightarrow> length (filter (\<lambda>i. d dvd i) [1..<Suc m]) = m div d"
proof (induction m)
  case 0
  then show ?case by simp
next
  case (Suc m)
  then show ?case by (simp add: div_Suc mod_eq_0_iff_dvd)
qed

lemma count_in_map:
  assumes "a \<noteq> b"
  shows "length (filter (\<lambda>r. r = a) (map (\<lambda>i. if P i then a else b) xs)) = length (filter P xs)"
  using assms by (induction xs) auto

text \<open>
  C1. For an endpoint of kind \<^verbatim>\<open>conditional_error\<close> that passes validation, with
  \<^verbatim>\<open>error_every_n = N\<close>, whose conditional counter is still 0, and any sequence of
  \<open>M\<close> successive requests (fewer than \<open>2^63\<close>, the range of the counter): the \<open>i\<close>-th
  reply, counted from 1, is the error reply when \<open>N\<close> divides \<open>i\<close> and the success reply
  with status 200 otherwise; the number of error replies is \<open>M div N\<close>; and with
  \<open>N = 1\<close> every reply is the error reply.
\<close>

theorem C1_conditional_error_pattern:
  assumes ty: "Type cfg = ''conditional_error''"
    and valid: "validateEndpointConfig cfg = None"
    and fresh: "ConditionalCount (endpoint_stats ss path) = 0"
    and len: "length clks < 2 ^ 63"
  shows "dispatch_all s path cfg clks ss =
           map (\<lambda>i. Inr (if ErrorEveryN cfg dvd int i then expected_error_reply cfg
                          else expected_success_reply s cfg))
               [1 ..< Suc (length clks)]
       \<and> length (filter (\<lambda>r. r = Inr (expected_error_reply cfg)) (dispatch_all s path cfg clks ss))
           = length clks div nat (ErrorEveryN cfg)
       \<and> (ErrorEveryN cfg = 1 \<longrightarrow>
            dispatch_all s path cfg clks ss = replicate (length clks) (Inr (expected_error_reply cfg)))"
proof -
  have n: "1 \<le> ErrorEveryN cfg" and sc: "400 \<le> StatusCode cfg"
    using ty valid by (auto simp: validateEndpointConfig_def split: if_splits)
  have pos: "dispatch_all s path cfg clks ss =
           map (\<lambda>i. Inr (if ErrorEveryN cfg dvd int i then expected_error_reply cfg
                          else expected_success_reply s cfg))
               [1 ..< Suc (length clks)]"
    using dispatch_all_positions [OF ty n, of ss path 0 clks s] fresh len by simp
  have ne: "(Inr (expected_error_reply cfg) :: panic + reply) \<noteq> Inr (expected_success_reply s cfg)"
    using sc by (auto simp: expected_error_reply_def expected_success_reply_def)
  have dv: "\<And>i. ErrorEveryN cfg dvd int i \<longleftrightarrow> nat (ErrorEveryN cfg) dvd i"
  proof -
    fix i
    have "int (nat (ErrorEveryN cfg)) = ErrorEveryN cfg" using n by simp
    then show "ErrorEveryN cfg dvd int i \<longleftrightarrow> nat (ErrorEveryN cfg) dvd i"
      by (metis int_dvd_int_iff)
  qed
  have cnt: "length (filter (\<lambda>r. r = Inr (expected_error_reply cfg)) (dispatch_all s path cfg clks ss))
           = length clks div nat (ErrorEveryN cfg)"
  proof -
    have "length (filter (\<lambda>r. r = Inr (expected_error_reply cfg)) (dispatch_all s path cfg clks ss))
        = length (filter (\<lambda>i. ErrorEveryN cfg dvd int i) [1 ..< Suc (length clks)])"
      unfolding pos
      using count_in_map [OF ne, of "\<lambda>i. ErrorEveryN cfg dvd int i" "[1 ..< Suc (length clks)]"]
      by (simp add: if_distrib [of Inr])
    also have "\<dots> = length (filter (\<lambda>i. nat (ErrorEveryN cfg) dvd i) [1 ..< Suc (length clks)])"
      by (simp add: dv)
    also have "\<dots> = length clks div nat (ErrorEveryN cfg)"
      using n by (intro count_multiples) auto
    finally show ?thesis .
  qed
  have one: "ErrorEveryN cfg = 1 \<longrightarrow>
            dispatch_all s path cfg clks ss = replicate (length clks) (Inr (expected_error_reply cfg))"
  proof
    assume "ErrorEveryN cfg = 1"
    then have "dispatch_all s path cfg clks ss =
        map (\<lambda>i. Inr (expected_error_reply cfg)) [1 ..< Suc (length clks)]"
      unfolding pos by simp
    also have "\<dots> = replicate (length clks) (Inr (expected_error_reply cfg))"
      by (simp add: map_replicate_const del: upt_Suc)
    finally show "dispatch_all s path cfg clks ss = replicate (length clks) (Inr (expected_error_reply cfg))" .
  qed
  from pos cnt one show ?thesis by blast
qed


theorem C1_conditional_error_pattern_witness:
  "dispatch_all (mem loaded_world) ''/api/flaky'' flaky_endpoint (replicate 6 example_clock) (new_ServerStats 0)
     = [Inr (expected_success_reply (mem loaded_world) flaky_endpoint),
        Inr (expected_success_reply (mem loaded_world) flaky_endpoint),
        Inr (expected_error_reply flaky_endpoint),
        Inr (expected_success_reply (mem loaded_world) flaky_endpoint),
        Inr (expected_success_reply (mem loaded_world) flaky_endpoint),
        Inr (expected_error_reply flaky_endpoint)]
   \<and> dispatch_all (mem loaded_world) ''/api/flaky'' always_failing_endpoint (replicate 3 example_clock) (new_ServerStats 0)
     = replicate 3 (Inr (expected_error_reply always_failing_endpoint))"
proof -
  have a1: "Type flaky_endpoint = ''conditional_error''"
    and a2: "validateEndpointConfig flaky_endpoint = None"
    and b1: "Type always_failing_endpoint = ''conditional_error''"
    and b2: "validateEndpointConfig always_failing_endpoint = None"
    and b5: "ErrorEveryN always_failing_endpoint = 1"
    by (simp_all add: flaky_endpoint_def always_failing_endpoint_def validateEndpointConfig_def)
  have a3: "ConditionalCount (endpoint_stats (new_ServerStats 0) ''/api/flaky'') = 0"
    by (simp add: endpoint_stats_def stats_table_def new_ServerStats_def new_EndpointStats_def)
  have a4: "length (replicate 6 example_clock) < 2 ^ 63"
    and b4: "length (replicate 3 example_clock) < 2 ^ 63"
    by simp_all
  have u: "[1 ..< Suc (length (replicate 6 example_clock))] = [1, 2, 3, 4, 5, 6]"
    by code_simp
  have n: "ErrorEveryN flaky_endpoint = 3"
    by (simp add: flaky_endpoint_def)
  have r1: "dispatch_all (mem loaded_world) ''/api/flaky'' flaky_endpoint (replicate 6 example_clock) (new_ServerStats 0)
      = map (\<lambda>i. Inr (if ErrorEveryN flaky_endpoint dvd int i then expected_error_reply flaky_endpoint
                          else expected_success_reply (mem loaded_world) flaky_endpoint))
            [1 ..< Suc (length (replicate 6 example_clock))]"
    using C1_conditional_error_pattern [OF a1 a2 a3 a4, of "mem loaded_world"] by blast
  have r2: "dispatch_all (mem loaded_world) ''/api/flaky'' always_failing_endpoint (replicate 3 example_clock) (new_ServerStats 0)
      = replicate (length (replicate 3 example_clock)) (Inr (expected_error_reply always_failing_endpoint))"
    using C1_conditional_error_pattern [OF b1 b2 a3 b4, of "mem loaded_world"] b5 by blast
  show ?thesis
    using r1 r2 unfolding u n by simp
qed

section \<open>Validation of an endpoint\<close>

text \<open>
  C6, as the code has it. \<^verbatim>\<open>validateEndpointConfig\<close> has a fourth case: the tag
  \<^verbatim>\<open>static\<close> is accepted, with no constraint on its fields.
\<close>

theorem C6_static_tag_accepted:
  "validateEndpointConfig static_endpoint = None
   \<and> Type static_endpoint \<noteq> ''error'' \<and> Type static_endpoint \<noteq> ''delay''
   \<and> Type static_endpoint \<noteq> ''conditional_error''"
  by code_simp

text \<open>
  C6, amended. Validation accepts exactly four tags: \<^verbatim>\<open>error\<close> with a status code in
  400..599, \<^verbatim>\<open>delay\<close> with a delay of at least 0, \<^verbatim>\<open>conditional_error\<close> with
  \<^verbatim>\<open>error_every_n\<close> at least 1 and a status code in 400..599, and \<^verbatim>\<open>static\<close> with no
  constraint; every other tag is an error.
\<close>

theorem C6_validation_accepts:
  "validateEndpointConfig cfg = None \<longleftrightarrow>
     Type cfg = ''error'' \<and> 400 \<le> StatusCode cfg \<and> StatusCode cfg \<le> 599
   \<or> Type cfg = ''delay'' \<and> 0 \<le> DelayMs cfg
   \<or> Type cfg = ''conditional_error'' \<and> 1 \<le> ErrorEveryN cfg
        \<and> 400 \<le> StatusCode cfg \<and> StatusCode cfg \<le> 599
   \<or> Type cfg = ''static''"
  by (auto simp: validateEndpointConfig_def)

theorem C6_validation_accepts_witness:
  "validateEndpointConfig test_endpoint = None
   \<and> validateEndpointConfig (test_endpoint\<lparr>Type := ''redirect''\<rparr>) \<noteq> None
   \<and> validateEndpointConfig (test_endpoint\<lparr>StatusCode := 200\<rparr>) \<noteq> None"
  using C6_validation_accepts [of test_endpoint]
    C6_validation_accepts [of "test_endpoint\<lparr>Type := ''redirect''\<rparr>"]
    C6_validation_accepts [of "test_endpoint\<lparr>StatusCode := 200\<rparr>"]
  by (simp add: test_endpoint_def)

section \<open>The mutators of the configuration manager\<close>

lemma saveConfigToFile_mem [simp]: "mem (snd (saveConfigToFile c w)) = mem w"
  by (simp add: saveConfigToFile_def)

lemma saveConfigToFile_mgr [simp]: "mgr (snd (saveConfigToFile c w)) = mgr w"
  by (simp add: saveConfigToFile_def)

lemma saveConfigToFile_ok:
  "fst (saveConfigToFile c w) = None \<longleftrightarrow> mkdir_ok (fs w) \<and> write_ok (fs w)"
  by (simp add: saveConfigToFile_def)

lemma saveConfigToFile_failed: "fst (saveConfigToFile c w) \<noteq> None \<Longrightarrow> snd (saveConfigToFile c w) = w"
  by (simp add: saveConfigToFile_def split: if_splits)

text \<open>
  The part of all-or-nothing that holds: a rejected endpoint or configuration changes
  nothing, and \<^verbatim>\<open>UpdateConfig\<close> changes nothing when it fails for any reason, since it
  saves before it swaps.
\<close>

lemma UpdateConfig_failure_unchanged:
  "fst (UpdateConfig c w) \<noteq> None \<Longrightarrow> snd (UpdateConfig c w) = w"
  using saveConfigToFile_failed [of c w]
  by (auto simp: UpdateConfig_def split: option.splits prod.splits)

lemma UpdateEndpoint_invalid_unchanged:
  "validateEndpointConfig ec \<noteq> None \<Longrightarrow>
   fst (UpdateEndpoint path ec w) \<noteq> None \<and> snd (UpdateEndpoint path ec w) = w"
  by (auto simp: UpdateEndpoint_def split: option.splits)

text \<open>
  C2. \<^verbatim>\<open>UpdateEndpoint\<close> and \<^verbatim>\<open>RemoveEndpoint\<close> change the live table before they save.
  With the default configuration loaded and the file unwritable, adding \<^verbatim>\<open>/api/new\<close> and
  removing \<^verbatim>\<open>/api/error\<close> each return the save error, and the live configuration is no
  longer what it was before the call.
\<close>

theorem C2_persist_failure_changes_memory:
  "fst (UpdateEndpoint ''/api/new'' test_endpoint readonly_world) = Some (SaveFailed WriteFailed)
   \<and> live_config (snd (UpdateEndpoint ''/api/new'' test_endpoint readonly_world)) \<noteq> live_config readonly_world
   \<and> fst (RemoveEndpoint ''/api/error'' readonly_world) = Some (SaveFailed WriteFailed)
   \<and> live_config (snd (RemoveEndpoint ''/api/error'' readonly_world)) \<noteq> live_config readonly_world"
  by code_simp

text \<open>
  C7. The snapshot of \<^verbatim>\<open>GetConfig\<close> shares the JSON objects of its endpoints with the
  live configuration. A caller that sets the \<^verbatim>\<open>message\<close> key of the response of
  \<^verbatim>\<open>/api/delay\<close> in the snapshot changes the live configuration.
\<close>

theorem C7_snapshot_shares_responses:
  "mutated_snapshot_world \<noteq> None
   \<and> live_config snapshot_world = live_config loaded_world
   \<and> map_option live_config mutated_snapshot_world \<noteq> Some (live_config loaded_world)"
  by code_simp

text \<open>
  C10, as the code has it. With a configuration loaded and a table that is not \<^verbatim>\<open>nil\<close>,
  \<^verbatim>\<open>RemoveEndpoint\<close> of an absent path still returns an error when the file cannot be
  written.
\<close>

theorem C10_save_error_returned:
  "endpoint_table readonly_world \<noteq> None
   \<and> fst (RemoveEndpoint ''/api/missing'' readonly_world) = Some (SaveFailed WriteFailed)"
  by code_simp

text \<open>
  C10, amended. \<^verbatim>\<open>RemoveEndpoint\<close> returns no error exactly when a configuration is
  loaded, its endpoint table is not \<^verbatim>\<open>nil\<close> and the configuration can be saved; so it
  returns an error exactly when the configuration is not loaded, the table is \<^verbatim>\<open>nil\<close>
  or saving fails. For a path that is not in the table, the table and the whole store
  are left as they were, whether or not saving succeeds.
\<close>

theorem C10_RemoveEndpoint_errors:
  "(fst (RemoveEndpoint path w) = None \<longleftrightarrow>
      endpoint_table w \<noteq> None \<and> mkdir_ok (fs w) \<and> write_ok (fs w))
   \<and> (endpoint_table w = Some t \<and> map_of t path = None \<longrightarrow>
        endpoint_table (snd (RemoveEndpoint path w)) = Some t
        \<and> mem (snd (RemoveEndpoint path w)) = mem w)"
proof -
  have ok: "fst (RemoveEndpoint path w) = None \<longleftrightarrow>
      endpoint_table w \<noteq> None \<and> mkdir_ok (fs w) \<and> write_ok (fs w)"
    by (auto simp: RemoveEndpoint_def endpoint_table_def saveConfigToFile_def Let_def
        split: option.splits)
  have same: "endpoint_table (snd (RemoveEndpoint path w)) = Some t
        \<and> mem (snd (RemoveEndpoint path w)) = mem w"
    if t: "endpoint_table w = Some t" and absent: "map_of t path = None"
  proof -
    obtain c a where c: "config (mgr w) = Some c" and a: "Endpoints (configs (mem w) c) = Some a"
      and ta: "tables (mem w) a = t"
      using t by (auto simp: endpoint_table_def split: option.splits)
    have "path \<notin> fst ` set t" using absent by (simp add: map_of_eq_None_iff)
    then have d: "AList.delete path t = t"
      by simp
    have m: "(mem w)\<lparr>tables := (tables (mem w))(a := t)\<rparr> = mem w"
      using ta by (simp add: fun_upd_idem)
    show ?thesis
      using c a ta
      by (auto simp: RemoveEndpoint_def d m saveConfigToFile_def notifyWatchers_def
          endpoint_table_def Let_def)
  qed
  from ok same show ?thesis by blast
qed

theorem C10_RemoveEndpoint_errors_witness:
  "endpoint_table loaded_world \<noteq> None
   \<and> map_of (the (endpoint_table loaded_world)) ''/api/missing'' = None
   \<and> fst (RemoveEndpoint ''/api/missing'' loaded_world) = None
   \<and> endpoint_table (snd (RemoveEndpoint ''/api/missing'' loaded_world)) = endpoint_table loaded_world
   \<and> fst (RemoveEndpoint ''/api/missing'' (loaded_world\<lparr>mgr := NewManager ''configs/default.json''\<rparr>)) \<noteq> None"
proof -
  have l: "endpoint_table loaded_world \<noteq> None"
    and a: "map_of (the (endpoint_table loaded_world)) ''/api/missing'' = None"
    and f: "mkdir_ok (fs loaded_world)" "write_ok (fs loaded_world)"
    and n: "endpoint_table (loaded_world\<lparr>mgr := NewManager ''configs/default.json''\<rparr>) = None"
    by code_simp+
  from l obtain t where t: "endpoint_table loaded_world = Some t" by blast
  from C10_RemoveEndpoint_errors [of "''/api/missing''" loaded_world t]
    C10_RemoveEndpoint_errors
      [of "''/api/missing''" "loaded_world\<lparr>mgr := NewManager ''configs/default.json''\<rparr>" t]
    l a f n t
  show ?thesis by simp
qed

lemma handleGetConfig_stats [simp]: "stats (snd (handleGetConfig sv)) = stats sv"
  by (simp add: handleGetConfig_def split: option.splits prod.splits)

lemma handleUpdateConfig_stats [simp]: "stats (snd (handleUpdateConfig r sv)) = stats sv"
  by (simp add: handleUpdateConfig_def Let_def split: option.splits prod.splits)

lemma handleAddEndpoint_stats [simp]: "stats (snd (handleAddEndpoint r sv)) = stats sv"
  by (simp add: handleAddEndpoint_def Let_def split: option.splits prod.splits)

lemma handleRemoveEndpoint_stats [simp]: "stats (snd (handleRemoveEndpoint r sv)) = stats sv"
  by (simp add: handleRemoveEndpoint_def split: option.splits prod.splits)

lemma handleConfig_stats:
  "stats (snd (handleConfig r clk sv)) =
     ServerStats_RecordRequest (t_now clk) ''/config'' (t_elapsed clk) 200 (stats sv)"
  by (simp add: handleConfig_def case_prod_beta)

lemma alloc_config_Server:
  "Server (configs (snd (alloc_config cv s)) (fst (alloc_config cv s))) = Server cv"
  by (simp add: alloc_config_def new_config_def case_prod_beta split: option.splits)

lemma UpdateConfig_invalid_port:
  "Port (Server (configs (mem w) c)) > 65535 \<Longrightarrow>
   fst (UpdateConfig c w) = Some (InvalidConfiguration (InvalidPort (Port (Server (configs (mem w) c)))))"
  by (simp add: UpdateConfig_def validateConfig_def)

lemma handleConfig_put_invalid_port:
  assumes "ReqMethod r = ''PUT''" and "BodyAsConfig r = Some cv" and "Port (Server cv) > 65535"
  shows "fst (handleConfig r clk sv) = http_Error ''Failed to update configuration'' 400"
proof -
  define a where "a = fst (alloc_config cv (mem (sys sv)))"
  define s1 where "s1 = snd (alloc_config cv (mem (sys sv)))"
  have "Port (Server (configs (mem ((sys sv)\<lparr>mem := s1\<rparr>)) a)) > 65535"
    using assms(3) by (simp add: a_def s1_def alloc_config_Server)
  from UpdateConfig_invalid_port [OF this]
  have "fst (handleUpdateConfig r sv) = http_Error ''Failed to update configuration'' 400"
    using assms(2)
    by (simp add: handleUpdateConfig_def case_prod_beta a_def s1_def split: option.splits prod.splits)
  then show ?thesis
    using assms(1) by (simp add: handleConfig_def case_prod_beta)
qed

text \<open>
  C8. \<^verbatim>\<open>handleConfig\<close> records every request under \<^verbatim>\<open>/config\<close> with status 200. A
  \<^verbatim>\<open>PUT /config\<close> with port 70000 is answered 400, and the statistics of \<^verbatim>\<open>/config\<close> then
  show no error and one request at 200.
\<close>

theorem C8_config_put_recorded_as_200:
  "status (fst (handleConfig put_invalid_port example_clock example_server)) = 400
   \<and> ErrorCount (endpoint_stats (stats (snd (handleConfig put_invalid_port example_clock example_server))) ''/config'') = 0
   \<and> StatusCodes (endpoint_stats (stats (snd (handleConfig put_invalid_port example_clock example_server))) ''/config'')
       = Some [(200, 1)]
   \<and> total_errors (stats (snd (handleConfig put_invalid_port example_clock example_server))) = 0"
proof -
  have "ReqMethod put_invalid_port = ''PUT''"
    and "BodyAsConfig put_invalid_port
          = Some (default_config\<lparr>Server := (Server default_config)\<lparr>Port := 70000\<rparr>\<rparr>)"
    and "Port (Server (default_config\<lparr>Server := (Server default_config)\<lparr>Port := 70000\<rparr>\<rparr>)) > 65535"
    by (simp_all add: put_invalid_port_def)
  then have r: "fst (handleConfig put_invalid_port example_clock example_server)
      = http_Error ''Failed to update configuration'' 400"
    by (rule handleConfig_put_invalid_port)
  have s: "stats (snd (handleConfig put_invalid_port example_clock example_server))
      = ServerStats_RecordRequest 1 ''/config'' 0 200 (new_ServerStats 0)"
    by (simp add: handleConfig_stats example_clock_def example_server_def)
  have e: "ErrorCount (endpoint_stats (ServerStats_RecordRequest 1 ''/config'' 0 200 (new_ServerStats 0)) ''/config'') = 0"
    and h: "StatusCodes (endpoint_stats (ServerStats_RecordRequest 1 ''/config'' 0 200 (new_ServerStats 0)) ''/config'')
       = Some [(200, 1)]"
    and t: "total_errors (ServerStats_RecordRequest 1 ''/config'' 0 200 (new_ServerStats 0)) = 0"
    by code_simp+
  show ?thesis
    unfolding r s using e h t by (simp add: http_Error_def)
qed

text \<open>\<^verbatim>\<open>handleRequestLog\<close> records nothing: it leaves the server's state as it was.\<close>

lemma handleRequestLog_state: "snd (handleRequestLog r sv) = sv"
  by (simp add: handleRequestLog_def)

section \<open>Static files and the static root\<close>

lemma split_where_nonempty [simp]: "split_where sep s \<noteq> []"
  by (induction s) (auto split: list.splits)

lemma split_where_append:
  "sep x \<Longrightarrow> split_where sep (a @ x # b) = split_where sep a @ split_where sep b"
proof (induction a)
  case Nil
  then show ?case by simp
next
  case (Cons y a)
  then show ?case
    by (cases "split_where sep a") auto
qed

lemma split_where_all_no_sep:
  "\<forall>e \<in> set (split_where sep s). \<forall>c \<in> set e. \<not> sep c"
proof (induction s)
  case Nil
  then show ?case by simp
next
  case (Cons x s)
  then show ?case
    by (cases "split_where sep s") auto
qed

lemma split_where_no_sep:
  "e \<in> set (split_where sep s) \<Longrightarrow> c \<in> set e \<Longrightarrow> \<not> sep c"
  using split_where_all_no_sep by blast

lemma split_where_single:
  "\<forall>c \<in> set e. \<not> sep c \<Longrightarrow> split_where sep e = [e]"
  by (induction e) auto

lemma path_elements_append:
  "path_elements (a @ CHR ''/'' # b) = path_elements a @ path_elements b"
  by (simp add: path_elements_def split_where_append is_slash_def)

lemma path_elements_plain: "e \<in> set (path_elements p) \<Longrightarrow> plain e"
  by (auto simp: path_elements_def plain_def dest: split_where_no_sep)

lemma clean_elements_append:
  "clean_elements r (xs @ ys) out = clean_elements r ys (clean_elements r xs out)"
  by (induction xs arbitrary: out) auto

lemma clean_elements_subset:
  "set (clean_elements r es out) \<subseteq> set es \<union> set out"
proof (induction es arbitrary: out)
  case Nil
  then show ?case by simp
next
  case (Cons e es)
  have "set (tl out) \<subseteq> set out" by (cases out) auto
  with Cons.IH [of "tl out"] Cons.IH [of "e # out"] Cons.IH [of out] show ?case
    by (auto split: if_splits)
qed

lemma clean_elements_rooted_nodd:
  "''..'' \<notin> set out \<Longrightarrow> ''..'' \<notin> set (clean_elements True es out)"
proof (induction es arbitrary: out)
  case Nil
  then show ?case by simp
next
  case (Cons e es)
  have "''..'' \<notin> set (tl out)" using Cons.prems by (cases out) auto
  with Cons show ?case by auto
qed

lemma clean_elements_push:
  "''..'' \<notin> set es \<Longrightarrow> clean_elements r es out = rev es @ out"
  by (induction es arbitrary: out) auto

lemma split_join:
  "es \<noteq> [] \<Longrightarrow> \<forall>e \<in> set es. \<forall>c \<in> set e. \<not> is_slash c \<Longrightarrow>
   split_where is_slash (join_slash es) = es"
proof (induction es rule: join_slash.induct)
  case 1
  then show ?case by simp
next
  case (2 e)
  then show ?case by (simp add: split_where_single)
next
  case (3 e v va)
  have "split_where is_slash (e @ CHR ''/'' # join_slash (v # va))
      = split_where is_slash e @ split_where is_slash (join_slash (v # va))"
    by (rule split_where_append) (simp add: is_slash_def)
  with 3 show ?case by (simp add: split_where_single)
qed

lemma path_elements_join:
  assumes "\<forall>e \<in> set es. plain e"
  shows "path_elements (join_slash es) = es"
proof (cases "es = []")
  case True
  then show ?thesis by (simp add: path_elements_def)
next
  case False
  have "split_where is_slash (join_slash es) = es"
    using False assms by (intro split_join) (auto simp: plain_def)
  then show ?thesis using assms by (simp add: path_elements_def plain_def filter_id_conv)
qed

lemma path_elements_rooted_join:
  assumes "\<forall>e \<in> set es. plain e"
  shows "path_elements (''/'' @ join_slash es) = es"
proof -
  have "path_elements ([] @ CHR ''/'' # join_slash es) = path_elements [] @ path_elements (join_slash es)"
    by (rule path_elements_append)
  then show ?thesis using path_elements_join [OF assms] by (simp add: path_elements_def)
qed

lemma clean_elements_plain:
  assumes "\<forall>e \<in> set es. plain e" "\<forall>e \<in> set out. plain e"
  shows "\<forall>e \<in> set (clean_elements r es out). plain e"
  using clean_elements_subset [of r es out] assms by blast

lemma path_elements_Clean:
  "path_elements (Clean p) = rev (clean_elements (IsAbs p) (path_elements p) [])"
proof (cases "p = []")
  case True
  then show ?thesis by (simp add: Clean_def path_elements_def is_slash_def)
next
  case False
  define out where "out = rev (clean_elements (IsAbs p) (path_elements p) [])"
  have pl: "\<forall>e \<in> set out. plain e"
    unfolding out_def using clean_elements_plain [of "path_elements p" "[]" "IsAbs p"]
    by (auto dest: path_elements_plain)
  have "path_elements ''.'' = []"
    by (simp add: path_elements_def is_slash_def)
  then show ?thesis
    using False pl path_elements_join [OF pl] path_elements_rooted_join [OF pl]
    by (auto simp: Clean_def Let_def out_def [symmetric])
qed

lemma join_slash_Cons:
  "e \<noteq> [] \<Longrightarrow> \<exists>t. join_slash (e # es) = hd e # t"
  by (cases es; cases e) auto

lemma join_slash_hd:
  assumes "es \<noteq> []" "\<forall>e \<in> set es. plain e"
  shows "\<not> IsAbs (join_slash es)"
proof -
  obtain e es' where es: "es = e # es'" using assms(1) by (cases es) auto
  then have e: "e \<noteq> []" "\<not> is_slash (hd e)" using assms(2) by (auto simp: plain_def)
  obtain t where "join_slash es = hd e # t"
    using join_slash_Cons [OF e(1)] es by blast
  then show ?thesis using e(2) by (simp add: IsAbs_def)
qed

lemma IsAbs_Clean: "IsAbs (Clean p) = IsAbs p"
proof (cases "p = []")
  case True
  then show ?thesis by (simp add: Clean_def IsAbs_def is_slash_def)
next
  case False
  define out where "out = rev (clean_elements (IsAbs p) (path_elements p) [])"
  have pl: "\<forall>e \<in> set out. plain e"
    unfolding out_def using clean_elements_plain [of "path_elements p" "[]" "IsAbs p"]
    by (auto dest: path_elements_plain)
  have "IsAbs (''/'' @ join_slash out)" "\<not> IsAbs ''.''"
    by (simp_all add: IsAbs_def is_slash_def)
  then show ?thesis
    using False join_slash_hd [OF _ pl]
    by (auto simp: Clean_def Let_def out_def [symmetric])
qed

lemma absorb_dotdot:
  "clean_elements True (rev (clean_elements False es acc)) out
     = clean_elements True es (clean_elements True (rev acc) out)"
proof (induction es arbitrary: acc)
  case Nil
  then show ?case by simp
next
  case (Cons e es)
  show ?case
  proof (cases "e = ''..'' \<and> acc \<noteq> [] \<and> hd acc \<noteq> ''..''")
    case True
    then obtain t acc' where acc: "acc = t # acc'" and t: "t \<noteq> ''..''"
      by (cases acc) auto
    have "clean_elements True (rev acc) out = t # clean_elements True (rev acc') out"
      using t by (simp add: acc clean_elements_append)
    then show ?thesis using True Cons.IH [of acc'] by (simp add: acc)
  next
    case False
    then have "clean_elements False (e # es) acc = clean_elements False es (e # acc)"
      by auto
    then show ?thesis using Cons.IH [of "e # acc"]
      by (simp add: clean_elements_append)
  qed
qed

lemma prefix_join_slash: "prefix (join_slash xs) (join_slash (xs @ ys))"
proof (induction xs rule: join_slash.induct)
  case 1
  then show ?case by simp
next
  case (2 e)
  then show ?case by (cases ys) auto
next
  case (3 e v va)
  then show ?case by simp
qed


lemma IsAbs_append: "a \<noteq> [] \<Longrightarrow> IsAbs (a @ b) = IsAbs a"
  by (cases a) (auto simp: IsAbs_def)

lemma Clean_rooted:
  "IsAbs p \<Longrightarrow> Clean p = ''/'' @ join_slash (rev (clean_elements True (path_elements p) []))"
  by (auto simp: Clean_def Let_def IsAbs_def)

lemma Clean_idem_rooted:
  assumes "IsAbs q"
  shows "Clean (Clean q) = Clean q"
proof -
  define T where "T = clean_elements True (path_elements q) []"
  have nodd: "''..'' \<notin> set (rev T)"
    unfolding T_def using clean_elements_rooted_nodd [of "[]"] by simp
  have "IsAbs (Clean q)" using assms by (simp add: IsAbs_Clean)
  then have "Clean (Clean q) = ''/'' @ join_slash (rev (clean_elements True (path_elements (Clean q)) []))"
    by (rule Clean_rooted)
  also have "path_elements (Clean q) = rev T"
    using assms by (simp add: path_elements_Clean T_def)
  also have "clean_elements True (rev T) [] = T"
    using clean_elements_push [OF nodd, of True "[]"] by simp
  finally show ?thesis using Clean_rooted [OF assms] by (simp add: T_def)
qed

lemma prefix_rooted_join:
  "prefix (''/'' @ join_slash xs) (''/'' @ join_slash (xs @ ys))"
  using prefix_join_slash [of xs ys] by simp

lemma static_root_prefix:
  assumes names: "''..'' \<notin> set (path_elements cleanPath)"
    and sd: "staticDir \<noteq> []"
    and wd: "IsAbs staticDir \<or> (\<exists>d. wd = Some d \<and> IsAbs d)"
  shows "\<exists>absStaticDir absFilePath.
           Abs wd staticDir = Some absStaticDir \<and>
           Abs wd (Join staticDir cleanPath) = Some absFilePath \<and>
           HasPrefix absFilePath absStaticDir"
proof -
  define ns where "ns = path_elements cleanPath"
  define q where "q = staticDir @ ''/'' @ cleanPath"
  have fp: "Join staticDir cleanPath = Clean q"
    using sd by (simp add: Join_def q_def)
  have absq: "IsAbs q = IsAbs staticDir"
    unfolding q_def using sd by (rule IsAbs_append)
  have eq: "path_elements q = path_elements staticDir @ ns"
    unfolding q_def ns_def by (simp add: path_elements_append)
  have nodd: "''..'' \<notin> set ns" using names by (simp add: ns_def)
  show ?thesis
  proof (cases "IsAbs staticDir")
    case True
    define S where "S = clean_elements True (path_elements staticDir) []"
    have a1: "Abs wd staticDir = Some (''/'' @ join_slash (rev S))"
      using True by (simp add: Abs_def Clean_rooted S_def)
    have rq: "IsAbs q" using True absq by simp
    have "clean_elements True (path_elements q) [] = rev ns @ S"
      by (simp add: eq clean_elements_append S_def clean_elements_push [OF nodd])
    then have cq: "Clean q = ''/'' @ join_slash (rev S @ ns)"
      using Clean_rooted [OF rq] by simp
    have "Abs wd (Clean q) = Some (Clean q)"
      using rq by (simp add: Abs_def IsAbs_Clean Clean_idem_rooted)
    then have a2: "Abs wd (Join staticDir cleanPath) = Some (''/'' @ join_slash (rev S @ ns))"
      unfolding fp cq .
    show ?thesis
      unfolding a1 a2 HasPrefix_def using prefix_rooted_join [of "rev S" ns] by simp
  next
    case False
    then obtain d where d: "wd = Some d" "IsAbs d" using wd by blast
    then have dne: "d \<noteq> []" by (auto simp: IsAbs_def)
    define D where "D = clean_elements True (path_elements d) []"
    define A where "A = clean_elements True (path_elements staticDir) D"
    have r1: "IsAbs (d @ ''/'' @ staticDir)" using d(2) dne by (simp add: IsAbs_append)
    have "Abs wd staticDir = Some (Clean (d @ ''/'' @ staticDir))"
      using False d dne by (simp add: Abs_def Join_def)
    also have "Clean (d @ ''/'' @ staticDir) = ''/'' @ join_slash (rev A)"
      using Clean_rooted [OF r1]
      by (simp add: path_elements_append clean_elements_append A_def D_def)
    finally have a1: "Abs wd staticDir = Some (''/'' @ join_slash (rev A))" .
    have nq: "\<not> IsAbs q" using False absq by simp
    have r2: "IsAbs (d @ ''/'' @ Clean q)" using d(2) dne by (simp add: IsAbs_append)
    have ef: "path_elements (Clean q) = rev (clean_elements False (path_elements staticDir) []) @ ns"
      using nq by (simp add: path_elements_Clean eq clean_elements_append clean_elements_push [OF nodd])
    have "Abs wd (Clean q) = Some (Clean (d @ ''/'' @ Clean q))"
      using nq d dne by (simp add: Abs_def Join_def IsAbs_Clean)
    also have "Clean (d @ ''/'' @ Clean q)
        = ''/'' @ join_slash (rev (clean_elements True (path_elements (d @ ''/'' @ Clean q)) []))"
      using r2 by (rule Clean_rooted)
    also have "clean_elements True (path_elements (d @ ''/'' @ Clean q)) [] = rev ns @ A"
      using absorb_dotdot [of "path_elements staticDir" "[]" D]
      by (simp add: path_elements_append ef clean_elements_append D_def [symmetric] A_def
          clean_elements_push [OF nodd])
    finally have a2: "Abs wd (Join staticDir cleanPath) = Some (''/'' @ join_slash (rev A @ ns))"
      by (simp add: fp)
    show ?thesis
      unfolding a1 a2 HasPrefix_def using prefix_rooted_join [of "rev A" ns] by simp
  qed
qed

lemma rooted_cleanPath_nodd:
  assumes "IsAbs urlPath"
  shows "''..'' \<notin> set (path_elements (clean_url_path urlPath))"
proof -
  have "path_elements ''/index.html'' = [''index.html'']"
    by (simp add: path_elements_def is_slash_def)
  moreover have "''..'' \<notin> set (path_elements (Clean urlPath))"
    using assms clean_elements_rooted_nodd [of "[]" "path_elements urlPath"]
    by (simp add: path_elements_Clean)
  ultimately show ?thesis by (simp add: clean_url_path_def)
qed

text \<open>
  C5, as the code has it. \<^verbatim>\<open>/../etc/passwd\<close> is cleaned to \<^verbatim>\<open>/etc/passwd\<close>, which lies
  under the static root: the handler does not answer 403 but calls \<^verbatim>\<open>http.ServeFile\<close>,
  which answers 400 for a URL path with a \<^verbatim>\<open>..\<close> element.
\<close>

theorem C5_traversal_path_not_403:
  "status (fst (handleStaticFile example_env ''/../etc/passwd'' ''./static'' example_clock (new_ServerStats 0))) \<noteq> 403
   \<and> fst (handleStaticFile example_env ''/../etc/passwd'' ''./static'' example_clock (new_ServerStats 0))
       = http_Error ''invalid URL path'' 400"
proof -
  have c: "clean_url_path ''/../etc/passwd'' = ''/etc/passwd''"
    by code_simp
  have j: "Join ''./static'' ''/etc/passwd'' = ''static/etc/passwd''"
    by code_simp
  have a1: "Abs (Some ''/srv/app'') ''./static'' = Some ''/srv/app/static''"
    by code_simp
  have a2: "Abs (Some ''/srv/app'') ''static/etc/passwd'' = Some ''/srv/app/static/etc/passwd''"
    by code_simp
  have p: "HasPrefix ''/srv/app/static/etc/passwd'' ''/srv/app/static''"
    by code_simp
  have d: "containsDotDot ''/../etc/passwd''"
    by code_simp
  have "fst (handleStaticFile example_env ''/../etc/passwd'' ''./static'' example_clock (new_ServerStats 0))
       = http_Error ''invalid URL path'' 400"
    by (simp add: handleStaticFile_def example_env_def Let_def c j a1 a2 p d ServeFile_def)
  then show ?thesis by (simp add: http_Error_def)
qed

text \<open>
  C5, amended. When the static directory is there and both paths can be made absolute,
  a request whose absolute file path does not start with the absolute static root is
  answered 403, and any other request is handed to \<^verbatim>\<open>http.ServeFile\<close>. A URL path that
  begins with \<^verbatim>\<open>/\<close> always resolves under the static root (the static directory being
  non-empty, and absolute or taken from an absolute working directory), so such a path,
  \<^verbatim>\<open>/../etc/passwd\<close> included, is never answered 403 by this check.
\<close>

theorem C5_static_root_check:
  assumes "ensure_ok env"
    and "Abs (getwd env) staticDir = Some absStaticDir"
    and "Abs (getwd env) (Join staticDir (clean_url_path urlPath)) = Some absFilePath"
  shows "(\<not> HasPrefix absFilePath absStaticDir \<longrightarrow>
            fst (handleStaticFile env urlPath staticDir clk ss) = http_Error ''Forbidden'' 403)
       \<and> (HasPrefix absFilePath absStaticDir \<longrightarrow>
            fst (handleStaticFile env urlPath staticDir clk ss)
              = ServeFile env urlPath (Join staticDir (clean_url_path urlPath)))
       \<and> (IsAbs urlPath \<and> staticDir \<noteq> [] \<and> (IsAbs staticDir \<or> (\<exists>d. getwd env = Some d \<and> IsAbs d)) \<longrightarrow>
            HasPrefix absFilePath absStaticDir)"
proof -
  have "HasPrefix absFilePath absStaticDir"
    if "IsAbs urlPath" "staticDir \<noteq> []" "IsAbs staticDir \<or> (\<exists>d. getwd env = Some d \<and> IsAbs d)"
    using static_root_prefix [OF rooted_cleanPath_nodd [OF that(1)] that(2) that(3)] assms(2,3)
    by auto
  then show ?thesis
    using assms by (auto simp: handleStaticFile_def Let_def)
qed

theorem C5_static_root_check_witness:
  "fst (handleStaticFile example_env ''/../etc/passwd'' ''./static'' example_clock (new_ServerStats 0))
     = ServeFile example_env ''/../etc/passwd'' ''static/etc/passwd''
   \<and> HasPrefix ''/srv/app/static/etc/passwd'' ''/srv/app/static''
   \<and> fst (handleStaticFile example_env ''../etc/passwd'' ''./static'' example_clock (new_ServerStats 0))
     = http_Error ''Forbidden'' 403"
proof -
  have e: "ensure_ok example_env"
    and a: "Abs (getwd example_env) ''./static'' = Some ''/srv/app/static''"
    and j1: "Join ''./static'' (clean_url_path ''/../etc/passwd'') = ''static/etc/passwd''"
    and j2: "Join ''./static'' (clean_url_path ''../etc/passwd'') = ''etc/passwd''"
    and b1: "Abs (getwd example_env) ''static/etc/passwd'' = Some ''/srv/app/static/etc/passwd''"
    and b2: "Abs (getwd example_env) ''etc/passwd'' = Some ''/srv/app/etc/passwd''"
    and p1: "HasPrefix ''/srv/app/static/etc/passwd'' ''/srv/app/static''"
    and p2: "\<not> HasPrefix ''/srv/app/etc/passwd'' ''/srv/app/static''"
    by code_simp+
  from C5_static_root_check [OF e a, of "''/../etc/passwd''" "''/srv/app/static/etc/passwd''"
      example_clock "new_ServerStats 0"]
    C5_static_root_check [OF e a, of "''../etc/passwd''" "''/srv/app/etc/passwd''"
      example_clock "new_ServerStats 0"]
    j1 j2 b1 b2 p1 p2
  show ?thesis by simp
qed

end
